theory Spec2Isabelle
  imports Complex_Main "HOL-Library.Word" "HOL-Library.Sublist"
begin

section \<open>JavaScript strings and values\<close>

text \<open>
  A JavaScript string is a sequence of 16-bit code units. The pipeline's regular
  expressions have no \<open>u\<close> flag, so they work on code units as well.
\<close>

type_synonym jschar = "16 word"
type_synonym jsstring = "jschar list"

text \<open>An ASCII literal as a JavaScript string.\<close>

definition js :: "string \<Rightarrow> jsstring" where
  "js s = map (\<lambda>c. of_nat (of_char c)) s"

text \<open>
  The values a property of a listing fragment holds: the extractors store a string or
  \<open>null\<close> in each of the seven named properties, and a property that is absent reads as
  \<open>undefined\<close>.
\<close>

datatype jsval = JUndefined | JNull | JStr jsstring

text \<open>ToBoolean: \<open>undefined\<close>, \<open>null\<close> and the empty string are falsy.\<close>

fun truthy :: "jsval \<Rightarrow> bool" where
  "truthy (JStr s) = (s \<noteq> [])"
| "truthy JNull = False"
| "truthy JUndefined = False"

text \<open>ToString, as a template literal applies it.\<close>

fun toString :: "jsval \<Rightarrow> jsstring" where
  "toString (JStr s) = s"
| "toString JNull = js ''null''"
| "toString JUndefined = js ''undefined''"

text \<open>
  The code units matched by \<open>\s\<close> and removed by \<open>String.prototype.trim\<close>
  (WhiteSpace and LineTerminator of ECMAScript), and those that \<open>.\<close> does not match.
\<close>

definition isWhiteSpace :: "jschar \<Rightarrow> bool" where
  "isWhiteSpace c \<longleftrightarrow>
     c = 0x09 \<or> c = 0x0A \<or> c = 0x0B \<or> c = 0x0C \<or> c = 0x0D \<or> c = 0x20 \<or> c = 0xA0 \<or>
     c = 0x1680 \<or> (0x2000 \<le> c \<and> c \<le> 0x200A) \<or> c = 0x2028 \<or> c = 0x2029 \<or>
     c = 0x202F \<or> c = 0x205F \<or> c = 0x3000 \<or> c = 0xFEFF"

definition isLineTerminator :: "jschar \<Rightarrow> bool" where
  "isLineTerminator c \<longleftrightarrow> c = 0x0A \<or> c = 0x0D \<or> c = 0x2028 \<or> c = 0x2029"

definition trim :: "jsstring \<Rightarrow> jsstring" where
  "trim s = rev (dropWhile isWhiteSpace (rev (dropWhile isWhiteSpace s)))"

text \<open>
  \<open>s.replace(/X+/g, r)\<close> for a character class \<open>X\<close>: every maximal run of code units
  of the class becomes one copy of \<open>r\<close>.
\<close>

function replaceRuns :: "(jschar \<Rightarrow> bool) \<Rightarrow> jsstring \<Rightarrow> jsstring \<Rightarrow> jsstring" where
  "replaceRuns X r [] = []"
| "replaceRuns X r (c # cs) =
     (if X c then r @ replaceRuns X r (dropWhile X cs) else c # replaceRuns X r cs)"
  by pat_completeness auto
termination
  by (relation "measure (\<lambda>(X, r, s). length s)")
     (auto simp: le_imp_less_Suc length_dropWhile_le)

section \<open>The normalisation pipeline (utils/jobProcessor.js)\<close>

subsection \<open>Cleaning one field\<close>

definition normalizeString :: "jsval \<Rightarrow> jsval" where
  "normalizeString value =
     (case value of
        JStr s \<Rightarrow>
          if s = [] then JNull
          else
            let r = replaceRuns (\<lambda>c. c = 0x0A) [0x20]
                      (replaceRuns isWhiteSpace [0x20] (trim s))
            in if r = [] then JNull else JStr r
      | _ \<Rightarrow> JNull)"

text \<open>
  \<open>closeParen cs\<close> is what follows the first \<open>)\<close> of \<open>cs\<close>, if the lazy \<open>.*?\<close> can
  reach one without crossing a line terminator.
\<close>

fun closeParen :: "jsstring \<Rightarrow> jsstring option" where
  "closeParen [] = None"
| "closeParen (c # cs) =
     (if c = 0x29 then Some cs
      else if isLineTerminator c then None
      else closeParen cs)"

lemma closeParen_length: "closeParen cs = Some rest \<Longrightarrow> length rest < length cs"
  by (induction cs) (auto split: if_splits intro: less_SucI)

text \<open>\<open>s.replace(/\(.*?\)/g, '')\<close>\<close>

function stripParens :: "jsstring \<Rightarrow> jsstring" where
  "stripParens [] = []"
| "stripParens (c # cs) =
     (if c = 0x28 then
        (case closeParen cs of
           Some rest \<Rightarrow> stripParens rest
         | None \<Rightarrow> c # stripParens cs)
      else c # stripParens cs)"
  by pat_completeness auto
termination
  by (relation "measure length") (auto dest: closeParen_length intro: less_SucI)

definition normalizeCompanyName :: "jsval \<Rightarrow> jsval" where
  "normalizeCompanyName company =
     (if \<not> truthy company then JNull
      else
        (case normalizeString company of
           JStr s \<Rightarrow> (let r = trim (stripParens s) in if r = [] then JNull else JStr r)
         | _ \<Rightarrow> JNull))"

text \<open>
  \<open>s.replace(/^in\s+/i, '')\<close>: under the \<open>i\<close> flag only \<open>i\<close>, \<open>I\<close> and \<open>n\<close>,
  \<open>N\<close> canonicalise to the pattern's letters.
\<close>

fun stripInPrefix :: "jsstring \<Rightarrow> jsstring" where
  "stripInPrefix (a # b # c # rest) =
     (if (a = 0x69 \<or> a = 0x49) \<and> (b = 0x6E \<or> b = 0x4E) \<and> isWhiteSpace c
      then dropWhile isWhiteSpace rest
      else a # b # c # rest)"
| "stripInPrefix s = s"

text \<open>
  The second pattern of \<open>normalizeLocation\<close> is the three code units U+00E2, U+20AC,
  U+00A2 of the source file (a bullet read in the wrong encoding), replaced by a comma.
\<close>

fun replaceBullet :: "jsstring \<Rightarrow> jsstring" where
  "replaceBullet (a # b # c # rest) =
     (if a = 0xE2 \<and> b = 0x20AC \<and> c = 0xA2 then 0x2C # replaceBullet rest
      else a # replaceBullet (b # c # rest))"
| "replaceBullet s = s"

definition normalizeLocation :: "jsval \<Rightarrow> jsval" where
  "normalizeLocation location =
     (if \<not> truthy location then JNull
      else
        (case normalizeString location of
           JStr s \<Rightarrow> JStr (trim (replaceBullet (stripInPrefix s)))
         | v \<Rightarrow> v))"

text \<open>
  \<open>new URL(url, baseUrl).toString()\<close> is the platform's URL parser; it is a parameter of
  the model: \<open>resolve url baseUrl\<close> is \<open>None\<close> where the constructor throws.
\<close>

type_synonym resolver = "jsstring \<Rightarrow> jsstring \<Rightarrow> jsstring option"

definition absoluteUrl :: "resolver \<Rightarrow> jsval \<Rightarrow> jsstring \<Rightarrow> jsval" where
  "absoluteUrl resolve url baseUrl =
     (case url of
        JStr s \<Rightarrow>
          if s = [] then JNull
          else if prefix (js ''http://'') s \<or> prefix (js ''https://'') s then JStr s
          else (case resolve s baseUrl of Some a \<Rightarrow> JStr a | None \<Rightarrow> JNull)
      | _ \<Rightarrow> JNull)"

subsection \<open>Fragments\<close>

text \<open>
  A listing fragment is a plain object: the seven properties the pipeline cleans, the
  \<open>rawHtml\<close> that \<open>cleanJob\<close> discards, and whatever else the extractor stored
  (\<open>source\<close>, \<open>scrapedAt\<close>, \<open>page\<close>, \<open>experience\<close>, \<open>skills\<close>), which \<open>cleanJob\<close>
  carries over unchanged.
\<close>

datatype xval = XVal jsval | XNum int | XList "jsstring list"

record job =
  jobId :: jsval
  title :: jsval
  company :: jsval
  location :: jsval
  jobUrl :: jsval
  salary :: jsval
  snippet :: jsval
  rawHtml :: jsval
  others :: "(jsstring \<times> xval) list"

definition cleanJob :: "resolver \<Rightarrow> job \<Rightarrow> jsstring \<Rightarrow> job" where
  "cleanJob resolve j baseUrl =
     \<lparr> jobId = normalizeString (jobId j),
       title = normalizeString (title j),
       company = normalizeCompanyName (company j),
       location = normalizeLocation (location j),
       jobUrl = absoluteUrl resolve (jobUrl j) baseUrl,
       salary = normalizeString (salary j),
       snippet = normalizeString (snippet j),
       rawHtml = JUndefined,
       others = others j \<rparr>"

definition cleanJobs :: "resolver \<Rightarrow> job list \<Rightarrow> jsstring \<Rightarrow> job list" where
  "cleanJobs resolve jobs baseUrl = map (\<lambda>j. cleanJob resolve j baseUrl) jobs"

subsection \<open>Deduplication, validation, the whole pipeline\<close>

definition dedupKey :: "jsstring \<Rightarrow> job \<Rightarrow> jsval" where
  "dedupKey dedupeBy j =
     (if dedupeBy = js ''jobId'' then jobId j
      else if dedupeBy = js ''jobUrl'' then jobUrl j
      else if dedupeBy = js ''both'' then
        JStr (toString (jobId j) @ js ''|'' @ toString (jobUrl j))
      else if truthy (jobId j) then jobId j else jobUrl j)"

text \<open>The loop of \<open>removeDuplicates\<close>; \<open>seen\<close> is the set of keys met so far.\<close>

fun dedupLoop :: "jsstring \<Rightarrow> jsval list \<Rightarrow> job list \<Rightarrow> job list" where
  "dedupLoop dedupeBy seen [] = []"
| "dedupLoop dedupeBy seen (j # rest) =
     (let key = dedupKey dedupeBy j in
      if \<not> truthy key \<or> key \<in> set seen then dedupLoop dedupeBy seen rest
      else j # dedupLoop dedupeBy (key # seen) rest)"

definition removeDuplicates :: "job list \<Rightarrow> jsstring \<Rightarrow> job list" where
  "removeDuplicates jobs dedupeBy = dedupLoop dedupeBy [] jobs"

definition validJob :: "job \<Rightarrow> bool" where
  "validJob j =
     (if \<not> truthy (title j) \<and> \<not> truthy (company j) then False
      else if \<not> truthy (jobUrl j) \<and> \<not> truthy (jobId j) then False
      else True)"

definition filterValidJobs :: "job list \<Rightarrow> job list" where
  "filterValidJobs jobs = filter validJob jobs"

record options =
  baseUrl :: "jsstring option"
  dedupeBy :: "jsstring option"
  removeInvalid :: "bool option"

record stats =
  original :: int
  duplicates :: int
  invalid :: int
  final :: int

record processed =
  jobs :: "job list"
  stats :: stats

definition processJobs :: "resolver \<Rightarrow> job list \<Rightarrow> options \<Rightarrow> processed" where
  "processJobs resolve input opts =
     (let base = (case baseUrl opts of None \<Rightarrow> js ''https://www.indeed.com'' | Some b \<Rightarrow> b);
          keyBy = (case dedupeBy opts of None \<Rightarrow> js ''jobId'' | Some d \<Rightarrow> d);
          rmInvalid = (case removeInvalid opts of None \<Rightarrow> True | Some b \<Rightarrow> b);
          originalCount = int (length input);
          cleaned = cleanJobs resolve input base;
          beforeDedup = int (length cleaned);
          deduped = removeDuplicates cleaned keyBy;
          duplicatesRemoved = beforeDedup - int (length deduped);
          result = (if rmInvalid then filterValidJobs deduped else deduped);
          invalidCount = (if rmInvalid then int (length deduped) - int (length result) else 0)
      in \<lparr> jobs = result,
           stats = \<lparr> original = originalCount, duplicates = duplicatesRemoved,
                     invalid = invalidCount, final = int (length result) \<rparr> \<rparr>)"

text \<open>\<open>processJobs(jobs)\<close>, called without options.\<close>

definition defaults :: options where
  "defaults = \<lparr> baseUrl = None, dedupeBy = None, removeInvalid = None \<rparr>"

section \<open>The scraper adapters\<close>

subsection \<open>Parameters and their validation\<close>

text \<open>
  \<open>params.keyword\<close> and \<open>params.location\<close> hold a string, \<open>null\<close> or nothing;
  \<open>params.maxPages\<close> is documented as a number: it is absent, \<open>null\<close>, \<open>NaN\<close> or a
  finite number, whole or not (\<open>NNum q\<close> is the number that prints as the decimal \<open>q\<close>).
\<close>

datatype numval = NUndefined | NNull | NNaN | NNum rat

record params =
  p_keyword :: jsval
  p_location :: jsval
  p_maxPages :: numval

record validation =
  isValid :: bool
  messages :: "jsstring list"

fun numTruthy :: "numval \<Rightarrow> bool" where
  "numTruthy (NNum n) = (n \<noteq> 0)"
| "numTruthy _ = False"

fun typeofNumber :: "numval \<Rightarrow> bool" where
  "typeofNumber (NNum n) = True"
| "typeofNumber NNaN = True"
| "typeofNumber _ = False"

text \<open>\<open>value < 1\<close> after ToNumber; every comparison with \<open>NaN\<close> is false.\<close>

fun lessThanOne :: "numval \<Rightarrow> bool" where
  "lessThanOne (NNum n) = (n < 1)"
| "lessThanOne NNull = True"
| "lessThanOne _ = False"

text \<open>\<open>!v || typeof v !== 'string'\<close>: every value of \<open>jsval\<close> that is truthy is a string.\<close>

definition missingString :: "jsval \<Rightarrow> bool" where
  "missingString v \<longleftrightarrow> \<not> truthy v \<or> (case v of JStr s \<Rightarrow> False | _ \<Rightarrow> True)"

text \<open>\<open>validateParams\<close> of \<open>IndeedScraper\<close> and of \<open>PlaywrightIndeedScraper\<close> (the same text).\<close>

definition validateParams_indeed :: "params \<Rightarrow> validation" where
  "validateParams_indeed p =
     (let e1 = (if missingString (p_keyword p)
                then [js ''keyword is required and must be a string''] else []);
          e2 = (if missingString (p_location p)
                then [js ''location is required and must be a string''] else []);
          e3 = (if numTruthy (p_maxPages p) \<and>
                   (\<not> typeofNumber (p_maxPages p) \<or> lessThanOne (p_maxPages p))
                then [js ''maxPages must be a positive number''] else []);
          errs = e1 @ e2 @ e3
      in \<lparr> isValid = (length errs = 0), messages = errs \<rparr>)"

text \<open>
  \<open>parseInt\<close> of a number goes through ToString and reads the digits before the first
  character that is no digit. From \<open>10^-6\<close> up to \<open>10^21\<close> a number prints in plain
  notation (\<open>20.5\<close>), so \<open>parseInt\<close> cuts the fraction off. From \<open>10^21\<close> on and below
  \<open>10^-6\<close> it prints in exponent notation (\<open>d.ddde+21\<close>, \<open>de-7\<close>), and \<open>parseInt\<close> stops
  after the leading digit. \<open>null\<close> prints as \<open>null\<close> and \<open>NaN\<close> as \<open>NaN\<close>, which have
  no digits. \<open>None\<close> is \<open>NaN\<close>.
\<close>

function leadingDigit :: "nat \<Rightarrow> nat" where
  "leadingDigit n = (if n < 10 then n else leadingDigit (n div 10))"
  by pat_completeness auto
termination
  by (relation "measure id") auto

text \<open>The first digit of the fraction \<open>a / b\<close> below 1 that is not zero.\<close>

function firstDigit :: "nat \<Rightarrow> nat \<Rightarrow> nat" where
  "firstDigit a b = (if a = 0 \<or> b \<le> a then a div b else firstDigit (10 * a) b)"
  by pat_completeness auto
termination
  by (relation "measure (\<lambda>(a, b). b - a)") auto

definition leadingSignificant :: "rat \<Rightarrow> nat" where
  "leadingSignificant q =
     (if 1 \<le> q then leadingDigit (nat \<lfloor>q\<rfloor>)
      else (case quotient_of q of (a, b) \<Rightarrow> firstDigit (nat a) (nat b)))"

fun parseInt :: "numval \<Rightarrow> int option" where
  "parseInt (NNum q) =
     (if q = 0 then Some 0
      else if 10 ^ 21 \<le> \<bar>q\<bar> \<or> \<bar>q\<bar> < 1 / 10 ^ 6 then
        (if q < 0 then Some (- int (leadingSignificant (- q)))
         else Some (int (leadingSignificant q)))
      else if q < 0 then Some (- \<lfloor>- q\<rfloor>)
      else Some \<lfloor>q\<rfloor>)"
| "parseInt _ = None"

text \<open>\<open>validateParams\<close> of \<open>NaukriScraper\<close> and of \<open>PlaywrightNaukriScraper\<close> (the same text).\<close>

definition validateParams_naukri :: "params \<Rightarrow> validation" where
  "validateParams_naukri p =
     (let e1 = (if missingString (p_keyword p)
                then [js ''keyword is required and must be a string''] else []);
          e2 = (if missingString (p_location p)
                then [js ''location is required and must be a string''] else []);
          e3 = (if p_maxPages p \<noteq> NUndefined then
                  (case parseInt (p_maxPages p) of
                     None \<Rightarrow> [js ''maxPages must be a number between 1 and 20'']
                   | Some maxPages \<Rightarrow>
                       if maxPages < 1 \<or> maxPages > 20
                       then [js ''maxPages must be a number between 1 and 20''] else [])
                else []);
          errs = e1 @ e2 @ e3
      in \<lparr> isValid = (length errs = 0), messages = errs \<rparr>)"

text \<open>
  The bound of the page loop: the destructuring default applies to an absent \<open>maxPages\<close>
  only, and the loop condition converts what it finds with ToNumber (\<open>null\<close> is \<open>0\<close>; a
  comparison with \<open>NaN\<close> is false, as with a bound of \<open>0\<close>).
\<close>

fun pageLimit :: "rat \<Rightarrow> numval \<Rightarrow> rat" where
  "pageLimit d NUndefined = d"
| "pageLimit d (NNum n) = n"
| "pageLimit d NNull = 0"
| "pageLimit d NNaN = 0"

subsection \<open>Documents and extraction\<close>

text \<open>
  The HTML parser and the browser's DOM are libraries. A document is modelled by the cards
  the first matching card selector yields, and a card by what the field selectors find in
  it: \<open>None\<close> where no element matches, otherwise the element's text (or, for the link,
  its \<open>href\<close> attribute).
\<close>

record card =
  idAttr :: jsval
  titleText :: "jsstring option"
  companyText :: "jsstring option"
  locationText :: "jsstring option"
  salaryText :: "jsstring option"
  snippetText :: "jsstring option"
  experienceText :: "jsstring option"
  skillTexts :: "jsstring list"
  link :: "jsval option"
  html :: jsval
  origin :: jsstring
  extractedAt :: jsstring

definition orNull :: "jsval \<Rightarrow> jsval" where
  "orNull v = (if truthy v then v else JNull)"

text \<open>\<open>$card.find(sel).first().text().trim() || null\<close>; the text of no element is empty.\<close>

definition cheerioText :: "jsstring option \<Rightarrow> jsval" where
  "cheerioText el =
     (let t = trim (case el of None \<Rightarrow> [] | Some x \<Rightarrow> x) in if t = [] then JNull else JStr t)"

text \<open>\<open>el ? el.textContent.trim() : null\<close>\<close>

definition domText :: "jsstring option \<Rightarrow> jsval" where
  "domText el = (case el of None \<Rightarrow> JNull | Some x \<Rightarrow> JStr (trim x))"

text \<open>
  The job URL: the link's \<open>href\<close>, made absolute by prefixing \<open>site\<close> unless it starts
  with \<open>http\<close>; without a link element, \<open>fallback\<close> (built from the job id).
\<close>

definition linkUrl :: "jsstring \<Rightarrow> jsval option \<Rightarrow> jsval \<Rightarrow> jsval" where
  "linkUrl site lnk fallback =
     (case lnk of
        Some href \<Rightarrow>
          (case href of
             JStr h \<Rightarrow>
               if h = [] then JNull
               else if prefix (js ''http'') h then JStr h else JStr (site @ h)
           | _ \<Rightarrow> JNull)
      | None \<Rightarrow> fallback)"

definition idUrl :: "jsstring \<Rightarrow> jsval \<Rightarrow> jsval" where
  "idUrl pre jid = (if truthy jid then JStr (pre @ toString jid) else JNull)"

definition skillList :: "jsstring list \<Rightarrow> xval" where
  "skillList texts =
     (let skills = filter (\<lambda>t. t \<noteq> []) (map trim texts)
      in if length skills > 0 then XList skills else XVal JNull)"

text \<open>One card of \<open>IndeedScraper.parseJobListings\<close>.\<close>

definition indeedCard :: "jsstring \<Rightarrow> card \<Rightarrow> job option" where
  "indeedCard base c =
     (let jid = orNull (idAttr c);
          t = cheerioText (titleText c);
          co = cheerioText (companyText c);
          loc = cheerioText (locationText c);
          url = linkUrl base (link c) (idUrl (base @ js ''/viewjob?jk='') jid);
          sal = cheerioText (salaryText c);
          snip = cheerioText (snippetText c)
      in if truthy t \<or> truthy co then
           Some \<lparr> jobId = jid, title = t, company = co, location = loc, jobUrl = url,
                  salary = sal, snippet = snip, rawHtml = html c, others = [] \<rparr>
         else None)"

text \<open>One card of \<open>NaukriScraper.parseJobListings\<close>.\<close>

definition naukriCard :: "jsstring \<Rightarrow> card \<Rightarrow> job option" where
  "naukriCard base c =
     (let jid = orNull (idAttr c);
          t = cheerioText (titleText c);
          co = cheerioText (companyText c);
          loc = cheerioText (locationText c);
          url = linkUrl base (link c) (idUrl (base @ js ''/job-listings-'') jid);
          sal = cheerioText (salaryText c);
          ex = cheerioText (experienceText c);
          snip = cheerioText (snippetText c)
      in if truthy t \<or> truthy co then
           Some \<lparr> jobId = jid, title = t, company = co, location = loc, jobUrl = url,
                  salary = sal, snippet = snip, rawHtml = JUndefined,
                  others = [(js ''experience'', XVal ex), (js ''skills'', skillList (skillTexts c)),
                            (js ''source'', XVal (JStr (js ''Naukri''))),
                            (js ''scrapedAt'', XVal (JStr (extractedAt c)))] \<rparr>
         else None)"

text \<open>One card of the function \<open>PlaywrightIndeedScraper.extractJobListings\<close> runs in the page.\<close>

definition playwrightIndeedCard :: "card \<Rightarrow> job option" where
  "playwrightIndeedCard c =
     (let jid = orNull (idAttr c);
          t = domText (titleText c);
          co = domText (companyText c);
          loc = domText (locationText c);
          url = linkUrl (origin c) (link c) (idUrl (origin c @ js ''/viewjob?jk='') jid);
          sal = domText (salaryText c);
          snip = domText (snippetText c)
      in if truthy t \<and> truthy co then
           Some \<lparr> jobId = jid, title = t, company = co, location = loc, jobUrl = url,
                  salary = sal, snippet = snip, rawHtml = JUndefined,
                  others = [(js ''scrapedAt'', XVal (JStr (extractedAt c)))] \<rparr>
         else None)"

text \<open>One card of the function \<open>PlaywrightNaukriScraper.extractJobs\<close> runs in the page.\<close>

definition playwrightNaukriCard :: "card \<Rightarrow> job option" where
  "playwrightNaukriCard c =
     (let jid = orNull (idAttr c);
          t = domText (titleText c);
          co = domText (companyText c);
          loc = domText (locationText c);
          url = linkUrl (js ''https://www.naukri.com'') (link c) JNull;
          sal = domText (salaryText c);
          ex = domText (experienceText c);
          snip = domText (snippetText c)
      in if truthy t \<or> truthy co then
           Some \<lparr> jobId = jid, title = t, company = co, location = loc, jobUrl = url,
                  salary = sal, snippet = snip, rawHtml = JUndefined,
                  others = [(js ''experience'', XVal ex), (js ''skills'', skillList (skillTexts c)),
                            (js ''source'', XVal (JStr (js ''Naukri''))),
                            (js ''scrapedAt'', XVal (JStr (extractedAt c)))] \<rparr>
         else None)"

text \<open>The four extractors: the fragments of the cards that pass the test, in card order.\<close>

definition parseJobListings_indeed :: "jsstring \<Rightarrow> card list \<Rightarrow> job list" where
  "parseJobListings_indeed base cards = List.map_filter (indeedCard base) cards"

definition parseJobListings_naukri :: "jsstring \<Rightarrow> card list \<Rightarrow> job list" where
  "parseJobListings_naukri base cards = List.map_filter (naukriCard base) cards"

definition extractJobListings :: "card list \<Rightarrow> job list" where
  "extractJobListings cards = List.map_filter playwrightIndeedCard cards"

definition extractJobs :: "card list \<Rightarrow> job list" where
  "extractJobs cards = List.map_filter playwrightNaukriCard cards"

subsection \<open>The world outside, and the state of an adapter\<close>

text \<open>
  What the adapters reach through libraries is a parameter of the model. A page is named
  by its number (the URL builders turn keyword, location and page number into the URL):
  \<open>fetchHtml w n\<close> is what \<open>httpClient.fetchHtml\<close> ends with for page \<open>n\<close>: the message
  of the error it throws after its retries, or the body of the 2xx answer, which is
  \<open>NoHtml\<close> when it is empty or not a string and a document otherwise; \<open>goto\<close>,
  \<open>waitForSelector\<close> and \<open>evaluate\<close> (the cards the function run in the page sees, or
  the message it rejects with) are the Playwright calls on page \<open>n\<close>, and \<open>launch\<close>, \<open>newContext\<close>,
  \<open>newPage\<close>, \<open>pageClose\<close>, \<open>browserClose\<close> say whether the call of that name rejects
  (\<open>Some message\<close>) or not. \<open>resolveUrl\<close> is the URL parser and \<open>toLowerCase\<close> the
  platform's \<open>String.prototype.toLowerCase\<close>.
\<close>

datatype body = NoHtml | Html "card list"

record world =
  resolveUrl :: resolver
  toLowerCase :: "jsstring \<Rightarrow> jsstring"
  fetchHtml :: "int \<Rightarrow> jsstring + body"
  launch :: "jsstring option"
  newContext :: "jsstring option"
  newPage :: "jsstring option"
  goto :: "int \<Rightarrow> jsstring option"
  waitForSelector :: "int \<Rightarrow> bool"
  evaluate :: "int \<Rightarrow> jsstring + card list"
  pageClose :: "jsstring option"
  browserClose :: "jsstring option"

text \<open>
  The records pushed on \<open>stats.errors\<close> (time stamps left out): \<open>{url, message}\<close> with the
  URL of a page, \<open>{page, message}\<close>, and \<open>{message}\<close>.
\<close>

datatype errorRecord = UrlError int jsstring | PageError int jsstring | RunError jsstring

text \<open>What \<open>onProgress\<close> receives (the job runner reads these three properties only).\<close>

record progressEvent =
  currentPage :: int
  totalPages :: rat
  jobsFound :: int

text \<open>
  An adapter instance: \<open>this.baseUrl\<close>, \<open>this.stats\<close>, and whether \<open>this.browser\<close> and
  \<open>this.page\<close> hold a handle. The last four fields are not fields of the class: they log
  what the instance did to the world (browser processes started, calls of
  \<open>browser.close\<close>, the pages requested and the progress events delivered, in order).
\<close>

record scraper =
  siteUrl :: jsstring
  requestsMade :: int
  successfulRequests :: int
  failedRequests :: int
  leadsExtracted :: int
  errors :: "errorRecord list"
  browser :: bool
  page :: bool
  launches :: nat
  closes :: nat
  requested :: "int list"
  reported :: "progressEvent list"

definition newScraper :: "jsstring \<Rightarrow> scraper" where
  "newScraper base =
     \<lparr> siteUrl = base, requestsMade = 0, successfulRequests = 0, failedRequests = 0,
       leadsExtracted = 0, errors = [], browser = False, page = False,
       launches = 0, closes = 0, requested = [], reported = [] \<rparr>"

definition report :: "int \<Rightarrow> rat \<Rightarrow> nat \<Rightarrow> scraper \<Rightarrow> scraper" where
  "report cur maxPages found s =
     s\<lparr> reported := reported s @
          [\<lparr> currentPage = cur, totalPages = maxPages, jobsFound = int found \<rparr>] \<rparr>"

text \<open>What \<open>scrape\<close> resolves to: an array of fragments, or the object of \<open>processJobs\<close>.\<close>

datatype scraped = Listings "job list" | Processed processed

text \<open>\<open>fetchPage\<close> of the two HTTP adapters (the same text).\<close>

definition fetchPage :: "world \<Rightarrow> int \<Rightarrow> scraper \<Rightarrow> (jsstring + body) \<times> scraper" where
  "fetchPage w n s =
     (let s1 = s\<lparr> requestsMade := requestsMade s + 1, requested := requested s @ [n] \<rparr>
      in case fetchHtml w n of
           Inr doc \<Rightarrow> (Inr doc, s1\<lparr> successfulRequests := successfulRequests s1 + 1 \<rparr>)
         | Inl m \<Rightarrow>
             (Inl m, s1\<lparr> failedRequests := failedRequests s1 + 1,
                         errors := errors s1 @ [UrlError n m] \<rparr>))"

text \<open>
  \<open>parseHtml\<close>, which both \<open>parseJobListings\<close> methods call first: it throws unless
  the body is a non-empty string; otherwise the card selectors are run on the document.
\<close>

definition parseHtml :: "body \<Rightarrow> jsstring + card list" where
  "parseHtml doc =
     (case doc of
        NoHtml \<Rightarrow> Inl (js ''HTML must be a non-empty string'')
      | Html cards \<Rightarrow> Inr cards)"

text \<open>
  The head of the \<open>try\<close> block in both HTTP page loops: \<open>fetchPage\<close>, then \<open>parseHtml\<close>
  inside \<open>parseJobListings\<close>. An error of either is caught by the same \<open>catch\<close>.
\<close>

definition fetchAndParse ::
  "world \<Rightarrow> int \<Rightarrow> scraper \<Rightarrow> (jsstring + card list) \<times> scraper" where
  "fetchAndParse w n s =
     (case fetchPage w n s of
        (Inr doc, s1) \<Rightarrow> (parseHtml doc, s1)
      | (Inl m, s1) \<Rightarrow> (Inl m, s1))"

text \<open>
  \<open>buildIndeedSearchUrl\<close> throws on a keyword or location that is missing or not a
  string; the Naukri builders call \<open>toLowerCase\<close> on them, a TypeError unless they are
  strings. \<open>None\<close>: the URL is built.
\<close>

definition indeedUrlError :: "params \<Rightarrow> jsstring option" where
  "indeedUrlError p =
     (if missingString (p_keyword p) then Some (js ''keyword is required and must be a string'')
      else if missingString (p_location p)
      then Some (js ''location is required and must be a string'')
      else None)"

definition notAString :: "jsval \<Rightarrow> jsstring option" where
  "notAString v =
     (case v of
        JStr s \<Rightarrow> None
      | _ \<Rightarrow> Some (js ''Cannot read properties of '' @ toString v @ js '' (reading '' @ [0x27]
                  @ js ''toLowerCase'' @ [0x27] @ js '')''))"

definition naukriUrlError :: "params \<Rightarrow> jsstring option" where
  "naukriUrlError p =
     (case notAString (p_keyword p) of Some m \<Rightarrow> Some m | None \<Rightarrow> notAString (p_location p))"

subsection \<open>IndeedScraper.scrape\<close>

text \<open>
  The page loop; \<open>page\<close> counts from \<open>0\<close> and page \<open>page + 1\<close> is requested. The delay
  between requests has no effect on the state. \<open>Inl\<close> is an error that leaves the loop
  for the outer \<open>catch\<close>. The \<open>catch\<close> inside the loop receives the errors of the fetch
  and of \<open>parseHtml\<close> alike.
\<close>

function indeedPages ::
  "world \<Rightarrow> jsstring option \<Rightarrow> rat \<Rightarrow> int \<Rightarrow> int \<Rightarrow> job list \<Rightarrow> scraper
     \<Rightarrow> (jsstring + job list) \<times> scraper" where
  "indeedPages w urlError maxPages pg consecutiveEmptyPages allJobs s =
     (if of_int pg < maxPages then
        (case urlError of
           Some m \<Rightarrow> (Inl m, s)
         | None \<Rightarrow>
            (case fetchAndParse w (pg + 1) s of
               (Inr cards, s1) \<Rightarrow>
                 (let found = parseJobListings_indeed (siteUrl s1) cards in
                  if length found = 0 then
                    (if consecutiveEmptyPages + 1 \<ge> 2 then (Inr allJobs, s1)
                     else indeedPages w urlError maxPages (pg + 1) (consecutiveEmptyPages + 1)
                            allJobs (report (pg + 1) maxPages (length allJobs) s1))
                  else indeedPages w urlError maxPages (pg + 1) 0 (allJobs @ found)
                         (report (pg + 1) maxPages (length (allJobs @ found)) s1))
             | (Inl m, s1) \<Rightarrow>
                 (let s2 = s1\<lparr> errors := errors s1 @ [PageError (pg + 1) m] \<rparr> in
                  if consecutiveEmptyPages + 1 \<ge> 3 then (Inr allJobs, s2)
                  else indeedPages w urlError maxPages (pg + 1) (consecutiveEmptyPages + 1)
                         allJobs s2)))
      else (Inr allJobs, s))"
  by pat_completeness auto
termination
  by (relation "measure (\<lambda>(w, u, maxPages, pg, e, a, s). nat (\<lceil>maxPages\<rceil> - pg))")
     (auto simp: less_ceiling_iff[symmetric])

definition scrape_indeed :: "world \<Rightarrow> params \<Rightarrow> scraper \<Rightarrow> (jsstring + scraped) \<times> scraper" where
  "scrape_indeed w p s =
     (let maxPages = pageLimit 5 (p_maxPages p) in
      case indeedPages w (indeedUrlError p) maxPages 0 0 [] s of
        (Inr allJobs, s1) \<Rightarrow>
          (let s2 = s1\<lparr> successfulRequests := requestsMade s1 - failedRequests s1 \<rparr>;
               result = processJobs (resolveUrl w) allJobs
                          \<lparr> baseUrl = Some (siteUrl s2), dedupeBy = Some (js ''jobId''),
                            removeInvalid = Some True \<rparr>
           in (Inr (Listings (jobs result)), s2))
      | (Inl m, s1) \<Rightarrow> (Inl m, s1\<lparr> errors := errors s1 @ [RunError m] \<rparr>))"

subsection \<open>NaukriScraper.scrape\<close>

function naukriPages ::
  "world \<Rightarrow> jsstring option \<Rightarrow> rat \<Rightarrow> int \<Rightarrow> job list \<Rightarrow> scraper
     \<Rightarrow> (jsstring + job list) \<times> scraper" where
  "naukriPages w urlError maxPages cur allJobs s =
     (if of_int cur \<le> maxPages then
        (case urlError of
           Some m \<Rightarrow> (Inl m, s)
         | None \<Rightarrow>
            (case fetchAndParse w cur s of
               (Inr cards, s1) \<Rightarrow>
                 (let found = parseJobListings_naukri (siteUrl s1) cards;
                      collected = allJobs @ found;
                      s2 = s1\<lparr> leadsExtracted := leadsExtracted s1 + int (length found) \<rparr>;
                      s3 = report cur maxPages (length collected) s2
                  in if length found = 0 then (Inr collected, s3)
                     else naukriPages w urlError maxPages (cur + 1) collected s3)
             | (Inl m, s1) \<Rightarrow> naukriPages w urlError maxPages (cur + 1) allJobs s1))
      else (Inr allJobs, s))"
  by pat_completeness auto
termination
  by (relation "measure (\<lambda>(w, u, maxPages, cur, a, s). nat (\<lfloor>maxPages\<rfloor> + 1 - cur))")
     (auto simp: le_floor_iff[symmetric])

definition scrape_naukri :: "world \<Rightarrow> params \<Rightarrow> scraper \<Rightarrow> (jsstring + scraped) \<times> scraper" where
  "scrape_naukri w p s =
     (let maxPages = pageLimit 5 (p_maxPages p) in
      case naukriPages w (naukriUrlError p) maxPages 1 [] s of
        (Inr allJobs, s1) \<Rightarrow> (Inr (Processed (processJobs (resolveUrl w) allJobs defaults)), s1)
      | (Inl m, s1) \<Rightarrow> (Inl m, s1))"

subsection \<open>The browser adapters\<close>

text \<open>\<open>initialize\<close> of both browser adapters (the same text); \<open>Some message\<close>: it throws.\<close>

definition initialize :: "world \<Rightarrow> scraper \<Rightarrow> jsstring option \<times> scraper" where
  "initialize w s =
     (case launch w of
        Some m \<Rightarrow> (Some m, s)
      | None \<Rightarrow>
         (let s1 = s\<lparr> browser := True, launches := launches s + 1 \<rparr> in
          case newContext w of
            Some m \<Rightarrow> (Some m, s1)
          | None \<Rightarrow>
             (case newPage w of
                Some m \<Rightarrow> (Some m, s1)
              | None \<Rightarrow> (None, s1\<lparr> page := True \<rparr>))))"

text \<open>
  The statements both \<open>cleanup\<close> methods share: close the page and forget it, then close
  the browser and forget it; a call that rejects ends the sequence.
\<close>

definition closeHandles :: "world \<Rightarrow> scraper \<Rightarrow> jsstring option \<times> scraper" where
  "closeHandles w s =
     (case (if page s then
              (case pageClose w of Some m \<Rightarrow> (Some m, s) | None \<Rightarrow> (None, s\<lparr> page := False \<rparr>))
            else (None, s)) of
        (Some m, s1) \<Rightarrow> (Some m, s1)
      | (None, s1) \<Rightarrow>
          (if browser s1 then
             (case browserClose w of
                Some m \<Rightarrow> (Some m, s1\<lparr> closes := closes s1 + 1 \<rparr>)
              | None \<Rightarrow> (None, s1\<lparr> browser := False, closes := closes s1 + 1 \<rparr>))
           else (None, s1)))"

text \<open>\<open>PlaywrightIndeedScraper.cleanup\<close> wraps them in \<open>try\<close>/\<open>catch\<close> and only logs the error.\<close>

definition cleanup_playwrightIndeed :: "world \<Rightarrow> scraper \<Rightarrow> scraper" where
  "cleanup_playwrightIndeed w s = snd (closeHandles w s)"

text \<open>\<open>PlaywrightNaukriScraper.cleanup\<close> lets the error out.\<close>

definition cleanup_playwrightNaukri :: "world \<Rightarrow> scraper \<Rightarrow> jsstring option \<times> scraper" where
  "cleanup_playwrightNaukri w s = closeHandles w s"

text \<open>
  \<open>navigateToUrl\<close> and \<open>navigateToPage\<close>: the request is counted, and a navigation that
  fails is recorded and rethrown. (\<open>navigateToPage\<close> also waits for a card and ignores
  the outcome.)
\<close>

definition navigate :: "world \<Rightarrow> int \<Rightarrow> scraper \<Rightarrow> jsstring option \<times> scraper" where
  "navigate w n s =
     (let s1 = s\<lparr> requestsMade := requestsMade s + 1, requested := requested s @ [n] \<rparr>
      in case goto w n of
           None \<Rightarrow> (None, s1\<lparr> successfulRequests := successfulRequests s1 + 1 \<rparr>)
         | Some m \<Rightarrow>
             (Some m, s1\<lparr> failedRequests := failedRequests s1 + 1,
                          errors := errors s1 @ [UrlError n m] \<rparr>))"

definition withPage :: "int \<Rightarrow> job \<Rightarrow> job" where
  "withPage n j = j\<lparr> others := others j @ [(js ''page'', XNum n)] \<rparr>"

text \<open>
  The page loop of \<open>PlaywrightIndeedScraper.scrape\<close>. A page on which no card becomes
  visible is skipped with \<open>continue\<close> (after a screenshot, whose failure is only logged).
\<close>

function playwrightIndeedPages ::
  "world \<Rightarrow> jsstring option \<Rightarrow> rat \<Rightarrow> int \<Rightarrow> job list \<Rightarrow> scraper
     \<Rightarrow> (jsstring + job list) \<times> scraper" where
  "playwrightIndeedPages w urlError maxPages pg allJobs s =
     (if of_int pg < maxPages then
        (case urlError of
           Some m \<Rightarrow> (Inl m, s)
         | None \<Rightarrow>
            (case navigate w (pg + 1) s of
               (Some m, s1) \<Rightarrow> (Inl m, s1)
             | (None, s1) \<Rightarrow>
                 if \<not> waitForSelector w (pg + 1)
                 then playwrightIndeedPages w urlError maxPages (pg + 1) allJobs s1
                 else
                   (case evaluate w (pg + 1) of
                      Inl m \<Rightarrow> (Inl m, s1)
                    | Inr cards \<Rightarrow>
                        (let found = extractJobListings cards;
                             s2 = s1\<lparr> leadsExtracted := leadsExtracted s1 + int (length found) \<rparr>;
                             collected = allJobs @ map (withPage (pg + 1)) found
                         in playwrightIndeedPages w urlError maxPages (pg + 1) collected
                              (report (pg + 1) maxPages (length collected) s2)))))
      else (Inr allJobs, s))"
  by pat_completeness auto
termination
  by (relation "measure (\<lambda>(w, u, maxPages, pg, a, s). nat (\<lceil>maxPages\<rceil> - pg))")
     (auto simp: less_ceiling_iff[symmetric])

definition scrape_playwrightIndeed ::
  "world \<Rightarrow> params \<Rightarrow> scraper \<Rightarrow> (jsstring + scraped) \<times> scraper" where
  "scrape_playwrightIndeed w p s =
     (let maxPages = pageLimit 1 (p_maxPages p);
          r = (case initialize w s of
                 (Some m, s1) \<Rightarrow> (Inl m, s1)
               | (None, s1) \<Rightarrow>
                   (case playwrightIndeedPages w (indeedUrlError p) maxPages 0 [] s1 of
                      (Inr allJobs, s2) \<Rightarrow> (Inr (Listings allJobs), s2)
                    | (Inl m, s2) \<Rightarrow> (Inl m, s2)))
      in (fst r, cleanup_playwrightIndeed w (snd r)))"

text \<open>
  The page loop of \<open>PlaywrightNaukriScraper.scrape\<close>: a navigation error is caught inside
  the loop, and \<open>extractJobs\<close> turns a failing \<open>evaluate\<close> into no jobs.
\<close>

function playwrightNaukriPages ::
  "world \<Rightarrow> jsstring option \<Rightarrow> rat \<Rightarrow> int \<Rightarrow> job list \<Rightarrow> scraper
     \<Rightarrow> (jsstring + job list) \<times> scraper" where
  "playwrightNaukriPages w urlError maxPages cur allJobs s =
     (if of_int cur \<le> maxPages then
        (case urlError of
           Some m \<Rightarrow> (Inl m, s)
         | None \<Rightarrow>
            (case navigate w cur s of
               (Some m, s1) \<Rightarrow> playwrightNaukriPages w urlError maxPages (cur + 1) allJobs s1
             | (None, s1) \<Rightarrow>
                 (let found = (case evaluate w cur of Inl m \<Rightarrow> [] | Inr cards \<Rightarrow> extractJobs cards);
                      collected = allJobs @ found;
                      s2 = s1\<lparr> leadsExtracted := leadsExtracted s1 + int (length found) \<rparr>;
                      s3 = report cur maxPages (length collected) s2
                  in if length found = 0 then (Inr collected, s3)
                     else playwrightNaukriPages w urlError maxPages (cur + 1) collected s3)))
      else (Inr allJobs, s))"
  by pat_completeness auto
termination
  by (relation "measure (\<lambda>(w, u, maxPages, cur, a, s). nat (\<lfloor>maxPages\<rfloor> + 1 - cur))")
     (auto simp: le_floor_iff[symmetric])

text \<open>An error thrown by \<open>cleanup\<close> in the \<open>finally\<close> block replaces the outcome of the run.\<close>

definition scrape_playwrightNaukri ::
  "world \<Rightarrow> params \<Rightarrow> scraper \<Rightarrow> (jsstring + scraped) \<times> scraper" where
  "scrape_playwrightNaukri w p s =
     (let maxPages = pageLimit 5 (p_maxPages p);
          r = (case initialize w s of
                 (Some m, s1) \<Rightarrow> (Inl m, s1)
               | (None, s1) \<Rightarrow>
                   (case playwrightNaukriPages w (naukriUrlError p) maxPages 1 [] s1 of
                      (Inr allJobs, s2) \<Rightarrow>
                        (Inr (Processed (processJobs (resolveUrl w) allJobs defaults)), s2)
                    | (Inl m, s2) \<Rightarrow> (Inl m, s2)))
      in case cleanup_playwrightNaukri w (snd r) of
           (Some m, s3) \<Rightarrow> (Inl m, s3)
         | (None, s3) \<Rightarrow> (fst r, s3))"

section \<open>The job runner (jobs/scrapeJobRunner.js)\<close>

datatype adapter = IndeedScraper | PlaywrightIndeedScraper | NaukriScraper | PlaywrightNaukriScraper



fun validateParams :: "adapter \<Rightarrow> params \<Rightarrow> validation" where
  "validateParams IndeedScraper p = validateParams_indeed p"
| "validateParams PlaywrightIndeedScraper p = validateParams_indeed p"
| "validateParams NaukriScraper p = validateParams_naukri p"
| "validateParams PlaywrightNaukriScraper p = validateParams_naukri p"

fun scrape :: "adapter \<Rightarrow> world \<Rightarrow> params \<Rightarrow> scraper \<Rightarrow> (jsstring + scraped) \<times> scraper" where
  "scrape IndeedScraper w p s = scrape_indeed w p s"
| "scrape PlaywrightIndeedScraper w p s = scrape_playwrightIndeed w p s"
| "scrape NaukriScraper w p s = scrape_naukri w p s"
| "scrape PlaywrightNaukriScraper w p s = scrape_playwrightNaukri w p s"


datatype runStatus = Pending | Running | Completed | Failed

text \<open>
  The \<open>result\<close> object of \<open>executeJob\<close> (name and times left out). \<open>totalJobs\<close> is
  \<open>jobs.length\<close>, which an object that is not an array does not have (\<open>None\<close>); the request
  counters are absent until the statistics are copied.
\<close>

record runResult =
  status :: runStatus
  listings :: scraped
  totalJobs :: "int option"
  pagesScraped :: int
  runErrors :: "errorRecord list"
  requestsSeen :: "(int \<times> int \<times> int) option"








section \<open>Example inputs\<close>

text \<open>
  A resolver for relative references that start with a slash, against a base without a
  path; and lower-casing of the Latin letters A to Z.
\<close>

definition exampleResolver :: resolver where
  "exampleResolver u b = Some (b @ u)"

definition asciiLower :: "jsstring \<Rightarrow> jsstring" where
  "asciiLower s = map (\<lambda>c. if 0x41 \<le> c \<and> c \<le> 0x5A then c + 0x20 else c) s"

definition parisJob :: job where
  "parisJob =
     \<lparr> jobId = JStr (js ''1''), title = JStr (js ''Dev''),
       company = JStr (js ''Acme (123 reviews) Inc''), location = JStr (js ''in in Paris''),
       jobUrl = JStr (js ''/rc/clk?jk=1''), salary = JNull, snippet = JNull,
       rawHtml = JUndefined, others = [] \<rparr>"

definition inInJob :: job where
  "inInJob = parisJob\<lparr> company := JStr (js ''Acme'') \<rparr>"

definition keylessJob :: job where
  "keylessJob =
     \<lparr> jobId = JNull, title = JStr (js ''Dev''), company = JStr (js ''Acme''),
       location = JNull, jobUrl = JStr (js ''https://x.test/1''), salary = JNull,
       snippet = JNull, rawHtml = JUndefined, others = [] \<rparr>"

definition devCard :: card where
  "devCard =
     \<lparr> idAttr = JStr (js ''a1''), titleText = Some (js ''Dev''), companyText = Some (js ''Acme''),
       locationText = Some (js ''Pune''), salaryText = None, snippetText = None,
       experienceText = None, skillTexts = [], link = None, html = JNull,
       origin = js ''https://in.indeed.com'', extractedAt = js ''2026-01-01T00:00:00.000Z'' \<rparr>"

definition titleOnlyCard :: card where
  "titleOnlyCard = devCard\<lparr> companyText := None \<rparr>"

text \<open>A site with one card on page 1 and none on any later page; nothing fails.\<close>

definition onePageWorld :: world where
  "onePageWorld =
     \<lparr> resolveUrl = exampleResolver, toLowerCase = asciiLower,
       fetchHtml = (\<lambda>n. if n = 1 then Inr (Html [devCard]) else Inr (Html [])),
       launch = None, newContext = None, newPage = None,
       goto = (\<lambda>n. None), waitForSelector = (\<lambda>n. True),
       evaluate = (\<lambda>n. if n = 1 then Inr [devCard] else Inr []),
       pageClose = None, browserClose = None \<rparr>"

text \<open>The same site when every page after the first is answered with an empty body.\<close>

definition blankPagesWorld :: world where
  "blankPagesWorld =
     onePageWorld\<lparr> fetchHtml := (\<lambda>n. if n = 1 then Inr (Html [devCard]) else Inr NoHtml) \<rparr>"


text \<open>The same site when \<open>page.close()\<close> rejects.\<close>

definition stuckPageWorld :: world where
  "stuckPageWorld = onePageWorld\<lparr> pageClose := Some (js ''close failed'') \<rparr>"

definition devInPune :: "numval \<Rightarrow> params" where
  "devInPune n = \<lparr> p_keyword = JStr (js ''dev''), p_location = JStr (js ''Pune''), p_maxPages = n \<rparr>"


section \<open>Notions used in the statements and proofs\<close>

text \<open>A string without white space at either end.\<close>

definition trimmed :: "jsstring \<Rightarrow> bool" where
  "trimmed t \<longleftrightarrow> t = [] \<or> (\<not> isWhiteSpace (hd t) \<and> \<not> isWhiteSpace (last t))"

abbreviation collapse :: "jsstring \<Rightarrow> jsstring" where
  "collapse \<equiv> replaceRuns isWhiteSpace [0x20]"

abbreviation visible :: "jsstring \<Rightarrow> jsstring" where
  "visible \<equiv> filter (\<lambda>c. \<not> isWhiteSpace c)"

text \<open>Some opening parenthesis is followed, somewhere, by a closing one.\<close>

fun openThenClose :: "jsstring \<Rightarrow> bool" where
  "openThenClose [] = False"
| "openThenClose (c # cs) = ((c = 0x28 \<and> 0x29 \<in> set cs) \<or> openThenClose cs)"

text \<open>What a second cleaning does to a cleaned fragment.\<close>

definition renormalise :: "job \<Rightarrow> job" where
  "renormalise j =
     j\<lparr> company := normalizeCompanyName (company j), location := normalizeLocation (location j) \<rparr>"

text \<open>Two fragments agree on every property other than \<open>company\<close> and \<open>location\<close>.\<close>

definition sameElsewhere :: "job \<Rightarrow> job \<Rightarrow> bool" where
  "sameElsewhere a b \<longleftrightarrow>
     jobId a = jobId b \<and> title a = title b \<and> jobUrl a = jobUrl b \<and> salary a = salary b \<and>
     snippet a = snippet b \<and> rawHtml a = rawHtml b \<and> others a = others b"

text \<open>The base URL \<open>processJobs\<close> works with.\<close>

definition effectiveBase :: "options \<Rightarrow> jsstring" where
  "effectiveBase opts =
     (case baseUrl opts of None \<Rightarrow> js ''https://www.indeed.com'' | Some b \<Rightarrow> b)"

text \<open>A field selector resolved to a non-empty string: it found an element with text.\<close>

definition resolved :: "jsstring option \<Rightarrow> bool" where
  "resolved el = (case el of None \<Rightarrow> False | Some t \<Rightarrow> trim t \<noteq> [])"

text \<open>
  The cards of page \<open>n\<close> as the HTTP adapters and as the browser adapters get them:
  \<open>None\<close> when there is no document to read cards from (the fetch throws or the body
  is no HTML; \<open>evaluate\<close> rejects).
\<close>

definition served :: "world \<Rightarrow> int \<Rightarrow> card list option" where
  "served w n = (case fetchHtml w n of Inr (Html cards) \<Rightarrow> Some cards | _ \<Rightarrow> None)"

definition rendered :: "world \<Rightarrow> int \<Rightarrow> card list option" where
  "rendered w n = (case evaluate w n of Inr cards \<Rightarrow> Some cards | Inl m \<Rightarrow> None)"

text \<open>
  The stub of the early-stop scenario: page 1 is a document with the cards \<open>first\<close>,
  which yield fragments, and every page from 2 on is a document whose cards yield none.
\<close>

definition emptyFromPage2 ::
  "(card list \<Rightarrow> job list) \<Rightarrow> (int \<Rightarrow> card list option) \<Rightarrow> card list \<Rightarrow> bool" where
  "emptyFromPage2 extract pages first \<longleftrightarrow>
     pages 1 = Some first \<and> extract first \<noteq> [] \<and>
     (\<forall>n\<ge>2. \<exists>cards. pages n = Some cards \<and> extract cards = [])"

text \<open>
  The same scenario when the answers from page 2 on are 2xx with an empty body: there is
  no document to search for cards.
\<close>

definition blankFromPage2 :: "(card list \<Rightarrow> job list) \<Rightarrow> world \<Rightarrow> card list \<Rightarrow> bool" where
  "blankFromPage2 extract w first \<longleftrightarrow>
     served w 1 = Some first \<and> extract first \<noteq> [] \<and> (\<forall>n\<ge>2. fetchHtml w n = Inr NoHtml)"

text \<open>No browser call rejects.\<close>

definition browserWorks :: "world \<Rightarrow> bool" where
  "browserWorks w \<longleftrightarrow>
     launch w = None \<and> newContext w = None \<and> newPage w = None \<and> (\<forall>n. goto w n = None) \<and>
     pageClose w = None \<and> browserClose w = None"

text \<open>The handles an adapter holds and its counts of browsers started and closed.\<close>

definition handles :: "scraper \<Rightarrow> bool \<times> bool \<times> nat \<times> nat" where
  "handles s = (browser s, page s, launches s, closes s)"

text \<open>The page loops are unfolded step by step in the proofs.\<close>

declare indeedPages.simps [simp del]
declare naukriPages.simps [simp del]
declare playwrightIndeedPages.simps [simp del]
declare playwrightNaukriPages.simps [simp del]

section \<open>The statistics of the pipeline\<close>

text \<open>
  C3. Whatever the fragments, the base URL and the deduplication key, with
  \<open>removeInvalid\<close> set the statistics add up: the final count plus the duplicates removed
  plus the invalid fragments removed is the original count.
\<close>

theorem processJobs_counts_add_up:
  "final (stats (processJobs resolve input \<lparr> baseUrl = b, dedupeBy = d, removeInvalid = Some True \<rparr>))
     + duplicates (stats (processJobs resolve input \<lparr> baseUrl = b, dedupeBy = d, removeInvalid = Some True \<rparr>))
     + invalid (stats (processJobs resolve input \<lparr> baseUrl = b, dedupeBy = d, removeInvalid = Some True \<rparr>))
   = original (stats (processJobs resolve input \<lparr> baseUrl = b, dedupeBy = d, removeInvalid = Some True \<rparr>))"
  by (simp add: processJobs_def Let_def cleanJobs_def)

section \<open>Deduplication\<close>

lemma dedupLoop_nths:
  "dedupLoop d seen input =
     nths input {i. i < length input \<and> truthy (dedupKey d (input ! i)) \<and>
                    dedupKey d (input ! i) \<notin> set seen \<union> dedupKey d ` set (take i input)}"
proof (induction input arbitrary: seen)
  case Nil
  show ?case by simp
next
  case (Cons j rest)
  show ?case
    apply (simp add: nths_Cons Let_def Cons.IH)
    apply (auto intro!: arg_cong2[where f = nths])
    done
qed

lemma dedupLoop_subset: "set (dedupLoop d seen xs) \<subseteq> set xs"
  by (induction xs arbitrary: seen) (auto simp: Let_def)

lemma dedupLoop_fresh:
  "j \<in> set (dedupLoop d seen xs) \<Longrightarrow> truthy (dedupKey d j) \<and> dedupKey d j \<notin> set seen"
proof (induction xs arbitrary: seen)
  case Nil
  then show ?case by simp
next
  case (Cons a xs)
  show ?case
  proof (cases "\<not> truthy (dedupKey d a) \<or> dedupKey d a \<in> set seen")
    case True
    then have "j \<in> set (dedupLoop d seen xs)" using Cons.prems by (simp add: Let_def)
    then show ?thesis by (rule Cons.IH)
  next
    case False
    then have "j = a \<or> j \<in> set (dedupLoop d (dedupKey d a # seen) xs)"
      using Cons.prems by (simp add: Let_def)
    then show ?thesis
    proof
      assume "j = a"
      then show ?thesis using False by simp
    next
      assume "j \<in> set (dedupLoop d (dedupKey d a # seen) xs)"
      then have "truthy (dedupKey d j) \<and> dedupKey d j \<notin> set (dedupKey d a # seen)"
        by (rule Cons.IH)
      then show ?thesis by simp
    qed
  qed
qed

lemma dedupLoop_distinct: "distinct (map (dedupKey d) (dedupLoop d seen xs))"
proof (induction xs arbitrary: seen)
  case Nil
  show ?case by simp
next
  case (Cons a xs)
  have "dedupKey d a \<notin> dedupKey d ` set (dedupLoop d (dedupKey d a # seen) xs)"
  proof
    assume "dedupKey d a \<in> dedupKey d ` set (dedupLoop d (dedupKey d a # seen) xs)"
    then obtain x where x: "x \<in> set (dedupLoop d (dedupKey d a # seen) xs)"
      "dedupKey d a = dedupKey d x" by blast
    then have "dedupKey d x \<notin> set (dedupKey d a # seen)"
      using dedupLoop_fresh[of x d "dedupKey d a # seen" xs] by blast
    then show False using x(2) by simp
  qed
  then show ?case using Cons.IH by (simp add: Let_def)
qed

lemma dedupLoop_id:
  "distinct (map (dedupKey d) xs) \<Longrightarrow>
   \<forall>j\<in>set xs. truthy (dedupKey d j) \<and> dedupKey d j \<notin> set seen \<Longrightarrow>
   dedupLoop d seen xs = xs"
proof (induction xs arbitrary: seen)
  case Nil
  show ?case by simp
next
  case (Cons a xs)
  have nk: "dedupKey d a \<notin> dedupKey d ` set xs" using Cons.prems(1) by simp
  have "\<forall>j\<in>set xs. truthy (dedupKey d j) \<and> dedupKey d j \<notin> set (dedupKey d a # seen)"
  proof
    fix j assume j: "j \<in> set xs"
    then have "dedupKey d j \<noteq> dedupKey d a" using nk by (metis image_eqI)
    moreover have "truthy (dedupKey d j) \<and> dedupKey d j \<notin> set seen"
      using Cons.prems(2) j by simp
    ultimately show "truthy (dedupKey d j) \<and> dedupKey d j \<notin> set (dedupKey d a # seen)"
      by simp
  qed
  moreover have "distinct (map (dedupKey d) xs)" using Cons.prems by simp
  ultimately have "dedupLoop d (dedupKey d a # seen) xs = xs" by (intro Cons.IH)
  then show ?case using Cons.prems by (simp add: Let_def)
qed

text \<open>
  C5, as the code has it. \<open>removeDuplicates\<close> returns exactly the fragments at the
  positions that carry a non-empty key no earlier fragment carries: the first occurrence
  of every key is kept, later occurrences are dropped, and so is every fragment whose key
  is missing or empty. The survivors keep their order: the result is a subsequence of the
  input.
\<close>

theorem removeDuplicates_first_keyed_occurrences:
  "removeDuplicates input d =
     nths input {i. i < length input \<and> truthy (dedupKey d (input ! i)) \<and>
                    dedupKey d (input ! i) \<notin> dedupKey d ` set (take i input)}
   \<and> subseq (removeDuplicates input d) input"
proof -
  have "removeDuplicates input d =
     nths input {i. i < length input \<and> truthy (dedupKey d (input ! i)) \<and>
                    dedupKey d (input ! i) \<notin> dedupKey d ` set (take i input)}"
    unfolding removeDuplicates_def by (simp add: dedupLoop_nths)
  moreover have "subseq (nths input N) input" for N
    using subseq_conv_nths by blast
  ultimately show ?thesis by simp
qed

text \<open>
  C5 as stated fails: a fragment without a job id is no duplicate of anything, yet the
  stage drops it.
\<close>

theorem removeDuplicates_drops_keyless:
  "removeDuplicates [keylessJob] (js ''jobId'') = []"
  by (simp add: removeDuplicates_def dedupKey_def keylessJob_def)

section \<open>Running the pipeline on its own output\<close>

lemma dropWhile_id_hd: "t = [] \<or> \<not> P (hd t) \<Longrightarrow> dropWhile P t = t"
  by (cases t) auto

lemma trimmed_trim_id: "trimmed t \<Longrightarrow> trim t = t"
  by (auto simp: trimmed_def trim_def dropWhile_id_hd hd_rev)

lemma last_dropWhile: "dropWhile P t \<noteq> [] \<Longrightarrow> last (dropWhile P t) = last t"
  by (induction t) (auto split: if_splits)

lemma trimmed_trim: "trimmed (trim s)"
proof -
  let ?a = "dropWhile isWhiteSpace s"
  let ?b = "dropWhile isWhiteSpace (rev ?a)"
  show ?thesis
  proof (cases "?b = []")
    case True
    then show ?thesis by (simp add: trimmed_def trim_def)
  next
    case False
    have ra: "?a \<noteq> []"
    proof
      assume "?a = []"
      then have "?b = []" by (simp only: rev.simps dropWhile.simps)
      then show False using False by blast
    qed
    have l: "\<not> isWhiteSpace (hd ?b)" using False by (rule hd_dropWhile)
    have "last ?b = last (rev ?a)" using False by (rule last_dropWhile)
    also have "\<dots> = hd ?a" using ra by (simp add: last_rev del: dropWhile_eq_Nil_conv)
    finally have h: "\<not> isWhiteSpace (last ?b)" using hd_dropWhile[OF ra] by simp
    have "hd (rev ?b) = last ?b" "last (rev ?b) = hd ?b"
      using False by (simp_all add: hd_rev last_rev del: dropWhile_eq_Nil_conv)
    then show ?thesis using l h unfolding trimmed_def trim_def by simp
  qed
qed

lemma replaceRuns_Nil_iff: "r \<noteq> [] \<Longrightarrow> replaceRuns X r s = [] \<longleftrightarrow> s = []"
  by (cases s) auto

lemma hd_collapse: "s \<noteq> [] \<Longrightarrow> \<not> isWhiteSpace (hd s) \<Longrightarrow> hd (collapse s) = hd s"
  by (cases s) auto

lemma last_collapse: "s \<noteq> [] \<Longrightarrow> \<not> isWhiteSpace (last s) \<Longrightarrow> last (collapse s) = last s"
proof (induction isWhiteSpace "[0x20 :: jschar]" s rule: replaceRuns.induct)
  case 1
  then show ?case by simp
next
  case (2 c cs)
  show ?case
  proof (cases "isWhiteSpace c")
    case True
    have ne: "dropWhile isWhiteSpace cs \<noteq> []"
    proof
      assume e: "dropWhile isWhiteSpace cs = []"
      then have "\<forall>x\<in>set cs. isWhiteSpace x" by (simp add: dropWhile_eq_Nil_conv)
      then have "isWhiteSpace (last (c # cs))" using True by (cases "cs = []") auto
      then show False using "2.prems" by simp
    qed
    then have cs: "cs \<noteq> []" by auto
    have lcs: "\<not> isWhiteSpace (last cs)" using cs "2.prems"(2) by simp
    have ld: "last (dropWhile isWhiteSpace cs) = last cs" using ne by (rule last_dropWhile)
    have "last (collapse (dropWhile isWhiteSpace cs)) = last (dropWhile isWhiteSpace cs)"
      using True ne lcs by (intro "2.hyps"(1)) (simp_all only: ld not_False_eq_True)
    moreover note ld
    moreover have "collapse (dropWhile isWhiteSpace cs) \<noteq> []"
      using ne replaceRuns_Nil_iff[of "[0x20]" isWhiteSpace "dropWhile isWhiteSpace cs"] by blast
    ultimately show ?thesis using True cs by simp
  next
    case False
    then show ?thesis using "2.prems" "2.hyps"(2)
      by (cases "cs = []") (auto simp: replaceRuns_Nil_iff)
  qed
qed

lemma trimmed_collapse: "trimmed t \<Longrightarrow> trimmed (collapse t)"
  by (auto simp: trimmed_def replaceRuns_Nil_iff hd_collapse last_collapse)

lemma collapse_idem: "collapse (collapse s) = collapse s"
proof (induction isWhiteSpace "[0x20 :: jschar]" s rule: replaceRuns.induct)
  case 1
  then show ?case by simp
next
  case (2 c cs)
  show ?case
  proof (cases "isWhiteSpace c")
    case True
    let ?u = "dropWhile isWhiteSpace cs"
    have "collapse ?u = [] \<or> \<not> isWhiteSpace (hd (collapse ?u))"
    proof (cases "?u = []")
      case True then show ?thesis by (simp del: dropWhile_eq_Nil_conv)
    next
      case False
      then have "\<not> isWhiteSpace (hd ?u)" by (rule hd_dropWhile)
      then show ?thesis using False by (simp add: hd_collapse del: dropWhile_eq_Nil_conv)
    qed
    then have "dropWhile isWhiteSpace (collapse ?u) = collapse ?u" by (rule dropWhile_id_hd)
    then show ?thesis using True "2.hyps"(1) by (simp add: isWhiteSpace_def)
  next
    case False
    then show ?thesis using "2.hyps"(2) by simp
  qed
qed

lemma set_collapse: "x \<in> set (collapse s) \<Longrightarrow> x = 0x20 \<or> (\<not> isWhiteSpace x \<and> x \<in> set s)"
proof (induction isWhiteSpace "[0x20 :: jschar]" s rule: replaceRuns.induct)
  case 1
  then show ?case by simp
next
  case (2 c cs)
  then show ?case by (auto split: if_splits dest: set_dropWhileD)
qed

lemma replaceRuns_none: "\<forall>x\<in>set s. \<not> X x \<Longrightarrow> replaceRuns X r s = s"
  by (induction s) auto

lemma nl_collapse: "replaceRuns (\<lambda>c. c = 0x0A) [0x20] (collapse s) = collapse s"
  by (rule replaceRuns_none) (auto dest!: set_collapse simp: isWhiteSpace_def)

lemma normalizeString_simp:
  "normalizeString (JStr s) = (if collapse (trim s) = [] then JNull else JStr (collapse (trim s)))"
  by (auto simp: normalizeString_def nl_collapse Let_def trim_def)

lemma normalizeString_idem: "normalizeString (normalizeString v) = normalizeString v"
proof (cases v)
  case (JStr s)
  have t: "trim (collapse (trim s)) = collapse (trim s)"
    by (intro trimmed_trim_id trimmed_collapse trimmed_trim)
  show ?thesis unfolding JStr normalizeString_simp
    by (simp add: normalizeString_simp t collapse_idem normalizeString_def[of JNull])
qed (simp_all add: normalizeString_def)

lemma closeParen_Some: "closeParen cs = Some rest \<Longrightarrow> 0x29 \<in> set cs \<and> set rest \<subseteq> set cs"
  by (induction cs) (auto split: if_splits)

lemma closeParen_None: "closeParen cs = None \<Longrightarrow> \<forall>c\<in>set cs. \<not> isLineTerminator c \<Longrightarrow> 0x29 \<notin> set cs"
  by (induction cs) (auto split: if_splits)

lemma set_stripParens: "set (stripParens s) \<subseteq> set s"
proof (induction s rule: stripParens.induct)
  case 1
  show ?case by simp
next
  case (2 c cs)
  show ?case
  proof (cases "c = 0x28")
    case True
    show ?thesis
    proof (cases "closeParen cs")
      case None
      then show ?thesis using True "2.IH"(1)[OF True None] by auto
    next
      case (Some rest)
      have "set rest \<subseteq> set cs" using Some closeParen_Some by blast
      moreover have "set (stripParens rest) \<subseteq> set rest" using True Some by (rule "2.IH"(2))
      ultimately show ?thesis using True Some by auto
    qed
  next
    case False
    then show ?thesis using "2.IH"(3)[OF False] by auto
  qed
qed

lemma stripParens_fix: "\<not> openThenClose t \<Longrightarrow> stripParens t = t"
  by (induction t) (auto split: option.splits dest: closeParen_Some)

lemma stripParens_closed:
  "\<forall>c\<in>set s. \<not> isLineTerminator c \<Longrightarrow> \<not> openThenClose (stripParens s)"
proof (induction s rule: stripParens.induct)
  case 1
  show ?case by simp
next
  case (2 c cs)
  show ?case
  proof (cases "c = 0x28")
    case True
    show ?thesis
    proof (cases "closeParen cs")
      case None
      have "0x29 \<notin> set cs" using closeParen_None[OF None] "2.prems" by simp
      then have "0x29 \<notin> set (stripParens cs)" using set_stripParens[of cs] by blast
      moreover have "\<not> openThenClose (stripParens cs)"
        using "2.IH"(1)[OF True None] "2.prems" by simp
      ultimately show ?thesis using True None by simp
    next
      case (Some rest)
      have "set rest \<subseteq> set cs" using Some closeParen_Some by blast
      then have "\<not> openThenClose (stripParens rest)"
        using "2.IH"(2)[OF True Some] "2.prems" by auto
      then show ?thesis using True Some by simp
    qed
  next
    case False
    have "\<not> openThenClose (stripParens cs)" using "2.IH"(3)[OF False] "2.prems" by simp
    then show ?thesis using False by simp
  qed
qed

lemma openThenClose_filter:
  "Q 0x28 \<Longrightarrow> Q 0x29 \<Longrightarrow> openThenClose (filter Q t) = openThenClose t"
  by (induction t) auto

lemma visible_dropWhile: "visible (dropWhile isWhiteSpace s) = visible s"
  by (induction s) auto

lemma visible_trim: "visible (trim s) = visible s"
proof -
  have "visible (trim s) = rev (visible (dropWhile isWhiteSpace (rev (dropWhile isWhiteSpace s))))"
    by (simp add: trim_def rev_filter)
  also have "\<dots> = rev (visible (rev (dropWhile isWhiteSpace s)))"
    by (simp only: visible_dropWhile)
  also have "\<dots> = visible s"
    by (simp add: rev_filter[symmetric] visible_dropWhile)
  finally show ?thesis .
qed

lemma isWhiteSpace_space: "isWhiteSpace 0x20"
  by (simp add: isWhiteSpace_def)

lemma visible_collapse: "visible (collapse s) = visible s"
proof (induction isWhiteSpace "[0x20 :: jschar]" s rule: replaceRuns.induct)
  case 1
  show ?case by simp
next
  case (2 c cs)
  then show ?case by (auto simp: visible_dropWhile isWhiteSpace_space)
qed

lemma openThenClose_visible: "openThenClose (visible t) = openThenClose t"
  by (rule openThenClose_filter) (simp_all add: isWhiteSpace_def)

lemma normalizeString_cases:
  "normalizeString v = JNull \<or> (\<exists>s0. normalizeString v = JStr (collapse (trim s0)) \<and> collapse (trim s0) \<noteq> [])"
proof (cases v)
  case (JStr s)
  then show ?thesis by (auto simp: normalizeString_simp)
qed (simp_all add: normalizeString_def)

lemma normalizeCompanyName_alt:
  "normalizeCompanyName v =
     (case normalizeString v of
        JStr s \<Rightarrow> (let r = trim (stripParens s) in if r = [] then JNull else JStr r)
      | _ \<Rightarrow> JNull)"
  by (cases v) (auto simp: normalizeCompanyName_def normalizeString_def)

lemma normalizeCompanyName_again:
  "normalizeCompanyName (normalizeCompanyName v) = normalizeString (normalizeCompanyName v)"
proof -
  consider "normalizeString v = JNull"
    | s0 where "normalizeString v = JStr (collapse (trim s0))" "collapse (trim s0) \<noteq> []"
    using normalizeString_cases by blast
  then show ?thesis
  proof cases
    case 1
    then show ?thesis by (simp add: normalizeCompanyName_alt normalizeString_def)
  next
    case 2
    let ?s = "collapse (trim s0)"
    let ?r = "trim (stripParens ?s)"
    show ?thesis
    proof (cases "?r = []")
      case True
      then show ?thesis using 2 by (simp add: normalizeCompanyName_alt normalizeString_def)
    next
      case False
      have c: "normalizeCompanyName v = JStr ?r"
        using 2 False by (simp add: normalizeCompanyName_alt)
      let ?s2 = "collapse ?r"
      have tr: "trim ?r = ?r" by (intro trimmed_trim_id trimmed_trim)
      have ne: "?s2 \<noteq> []" using False by (simp add: replaceRuns_Nil_iff)
      have n: "normalizeString (JStr ?r) = JStr ?s2"
        using ne by (simp add: normalizeString_simp tr)
      have nolt: "\<forall>c\<in>set ?s. \<not> isLineTerminator c"
        by (auto dest!: set_collapse simp: isWhiteSpace_def isLineTerminator_def)
      have "openThenClose ?s2 = openThenClose (visible ?s2)" by (simp only: openThenClose_visible)
      also have "visible ?s2 = visible (stripParens ?s)" by (simp only: visible_collapse visible_trim)
      also have "openThenClose \<dots> = openThenClose (stripParens ?s)" by (simp only: openThenClose_visible)
      finally have "\<not> openThenClose ?s2" using stripParens_closed[OF nolt] by simp
      then have sp: "stripParens ?s2 = ?s2" by (rule stripParens_fix)
      have ts: "trim ?s2 = ?s2" by (intro trimmed_trim_id trimmed_collapse trimmed_trim)
      have "normalizeCompanyName (JStr ?r) = JStr ?s2"
        using ne by (simp add: normalizeCompanyName_alt n sp ts)
      then show ?thesis using c n by simp
    qed
  qed
qed

lemma normalizeCompanyName_truthy_again:
  "truthy (normalizeCompanyName v) \<Longrightarrow> truthy (normalizeCompanyName (normalizeCompanyName v))"
proof -
  assume t: "truthy (normalizeCompanyName v)"
  then obtain r where r: "normalizeCompanyName v = JStr r" "r \<noteq> []"
    by (cases "normalizeCompanyName v") auto
  have "trimmed r" using r
    by (auto simp: normalizeCompanyName_alt Let_def trimmed_trim split: jsval.splits if_splits)
  then have "trim r = r" by (rule trimmed_trim_id)
  then have "normalizeString (JStr r) = JStr (collapse r)"
    using r by (simp add: normalizeString_simp replaceRuns_Nil_iff)
  moreover have "normalizeCompanyName (normalizeCompanyName v) = normalizeString (JStr r)"
    using normalizeCompanyName_again[of v] r by simp
  ultimately show ?thesis using r by (simp add: replaceRuns_Nil_iff)
qed
lemma absoluteUrl_again:
  assumes "\<And>u a. resolve u base = Some a \<Longrightarrow> absoluteUrl resolve (JStr a) base = JStr a"
  shows "absoluteUrl resolve (absoluteUrl resolve v base) base = absoluteUrl resolve v base"
proof (cases v)
  case (JStr s)
  show ?thesis
  proof (cases "s = [] \<or> prefix (js ''http://'') s \<or> prefix (js ''https://'') s")
    case True
    then show ?thesis using JStr by (auto simp: absoluteUrl_def)
  next
    case False
    then show ?thesis using JStr assms[of s]
      by (cases "resolve s base") (auto simp: absoluteUrl_def)
  qed
qed (simp_all add: absoluteUrl_def)

lemma cleanJob_again:
  assumes "\<And>u a. resolve u base = Some a \<Longrightarrow> absoluteUrl resolve (JStr a) base = JStr a"
  shows "cleanJob resolve (cleanJob resolve j base) base = renormalise (cleanJob resolve j base)"
  by (simp add: cleanJob_def renormalise_def normalizeString_idem absoluteUrl_again[OF assms])

lemma dedupKey_renormalise: "dedupKey d (renormalise j) = dedupKey d j"
  by (simp add: dedupKey_def renormalise_def)

lemma validJob_renormalise_clean:
  "validJob (cleanJob resolve j base) \<Longrightarrow> validJob (renormalise (cleanJob resolve j base))"
  using normalizeCompanyName_truthy_again[of "company j"]
  by (auto simp: validJob_def renormalise_def cleanJob_def split: if_splits)

lemma sameElsewhere_renormalise: "list_all2 sameElsewhere (map renormalise xs) xs"
  by (induction xs) (simp_all add: sameElsewhere_def renormalise_def)

lemma processJobs_again:
  assumes H: "\<And>u a. resolve u (effectiveBase opts) = Some a \<Longrightarrow>
                absoluteUrl resolve (JStr a) (effectiveBase opts) = JStr a"
  shows "processJobs resolve (jobs (processJobs resolve input opts)) opts =
           \<lparr> jobs = map renormalise (jobs (processJobs resolve input opts)),
             stats = \<lparr> original = int (length (jobs (processJobs resolve input opts))),
                       duplicates = 0, invalid = 0,
                       final = int (length (jobs (processJobs resolve input opts))) \<rparr> \<rparr>"
proof -
  define base where "base = effectiveBase opts"
  define keyBy where "keyBy = (case dedupeBy opts of None \<Rightarrow> js ''jobId'' | Some d \<Rightarrow> d)"
  define rm where "rm = (case removeInvalid opts of None \<Rightarrow> True | Some b \<Rightarrow> b)"
  define cleaned where "cleaned = cleanJobs resolve input base"
  define D where "D = dedupLoop keyBy [] cleaned"
  define F where "F = (if rm then filter validJob D else D)"
  have P1: "jobs (processJobs resolve input opts) = F"
    by (simp add: processJobs_def Let_def F_def D_def cleaned_def rm_def keyBy_def base_def
        effectiveBase_def removeDuplicates_def filterValidJobs_def)
  have Fsub: "set F \<subseteq> set D" by (auto simp: F_def)
  have Dsub: "set D \<subseteq> set cleaned" unfolding D_def by (rule dedupLoop_subset)
  have cl: "\<And>j. j \<in> set F \<Longrightarrow> \<exists>j0. j = cleanJob resolve j0 base"
    using Fsub Dsub by (auto simp: cleaned_def cleanJobs_def)
  have H': "\<And>u a. resolve u base = Some a \<Longrightarrow> absoluteUrl resolve (JStr a) base = JStr a"
    using H by (simp add: base_def)
  have c2: "cleanJobs resolve F base = map renormalise F"
    unfolding cleanJobs_def
  proof (rule map_cong[OF refl])
    fix j assume "j \<in> set F"
    then obtain j0 where "j = cleanJob resolve j0 base" using cl by blast
    then show "cleanJob resolve j base = renormalise j" by (simp add: cleanJob_again[OF H'])
  qed
  have keys: "map (dedupKey keyBy) (map renormalise F) = map (dedupKey keyBy) F"
    by (simp add: dedupKey_renormalise)
  have "distinct (map (dedupKey keyBy) D)" unfolding D_def by (rule dedupLoop_distinct)
  then have dF: "distinct (map (dedupKey keyBy) F)"
    by (auto simp: F_def distinct_map_filter)
  have tF: "\<forall>j\<in>set (map renormalise F). truthy (dedupKey keyBy j) \<and> dedupKey keyBy j \<notin> set []"
    using Fsub dedupLoop_fresh[of _ keyBy "[]" cleaned] by (auto simp: dedupKey_renormalise D_def)
  have d2: "dedupLoop keyBy [] (map renormalise F) = map renormalise F"
    using dF tF by (intro dedupLoop_id) (simp_all only: keys)
  have v2: "rm \<Longrightarrow> filter validJob (map renormalise F) = map renormalise F"
  proof -
    assume rm
    have "\<forall>j\<in>set F. validJob (renormalise j)"
    proof
      fix j assume j: "j \<in> set F"
      then obtain j0 where j0: "j = cleanJob resolve j0 base" using cl by blast
      have "validJob j" using j \<open>rm\<close> by (simp add: F_def)
      then show "validJob (renormalise j)" unfolding j0 by (rule validJob_renormalise_clean)
    qed
    then show ?thesis by (simp add: filter_id_conv)
  qed
  show ?thesis
    unfolding P1
    using c2 d2 v2
    by (simp add: processJobs_def Let_def removeDuplicates_def filterValidJobs_def
        rm_def[symmetric] keyBy_def[symmetric] base_def[symmetric] effectiveBase_def[symmetric])
qed

text \<open>
  C4, as the code has it. When the URL parser maps the URLs it returns to themselves,
  running \<open>processJobs\<close> on the jobs it produced, with the same options, removes no
  further duplicate and no further invalid fragment, keeps the number and the order of
  the jobs, and leaves every property other than \<open>company\<close> and \<open>location\<close> of every
  job unchanged.
\<close>

theorem processJobs_second_run:
  assumes "\<And>u a. resolve u (effectiveBase opts) = Some a \<Longrightarrow>
             absoluteUrl resolve (JStr a) (effectiveBase opts) = JStr a"
  shows "list_all2 sameElsewhere
           (jobs (processJobs resolve (jobs (processJobs resolve input opts)) opts))
           (jobs (processJobs resolve input opts)) \<and>
         duplicates (stats (processJobs resolve (jobs (processJobs resolve input opts)) opts)) = 0 \<and>
         invalid (stats (processJobs resolve (jobs (processJobs resolve input opts)) opts)) = 0 \<and>
         final (stats (processJobs resolve (jobs (processJobs resolve input opts)) opts)) =
           final (stats (processJobs resolve input opts))"
proof -
  have f: "final (stats (processJobs resolve input opts)) =
             int (length (jobs (processJobs resolve input opts)))"
    by (simp add: processJobs_def Let_def)
  have a: "processJobs resolve (jobs (processJobs resolve input opts)) opts =
           \<lparr> jobs = map renormalise (jobs (processJobs resolve input opts)),
             stats = \<lparr> original = int (length (jobs (processJobs resolve input opts))),
                       duplicates = 0, invalid = 0,
                       final = int (length (jobs (processJobs resolve input opts))) \<rparr> \<rparr>"
    using assms by (rule processJobs_again)
  have b: "list_all2 sameElsewhere (map renormalise (jobs (processJobs resolve input opts)))
             (jobs (processJobs resolve input opts))"
    by (rule sameElsewhere_renormalise)
  show ?thesis
    by (simp add: a b f)
qed

theorem processJobs_second_run_witness:
  "list_all2 sameElsewhere
     (jobs (processJobs exampleResolver
              (jobs (processJobs exampleResolver [parisJob, keylessJob] defaults)) defaults))
     (jobs (processJobs exampleResolver [parisJob, keylessJob] defaults)) \<and>
   duplicates (stats (processJobs exampleResolver
              (jobs (processJobs exampleResolver [parisJob, keylessJob] defaults)) defaults)) = 0 \<and>
   invalid (stats (processJobs exampleResolver
              (jobs (processJobs exampleResolver [parisJob, keylessJob] defaults)) defaults)) = 0 \<and>
   final (stats (processJobs exampleResolver
              (jobs (processJobs exampleResolver [parisJob, keylessJob] defaults)) defaults)) =
     final (stats (processJobs exampleResolver [parisJob, keylessJob] defaults))"
  by (rule processJobs_second_run)
     (simp add: effectiveBase_def defaults_def exampleResolver_def absoluteUrl_def js_def)

text \<open>
  C4 as stated fails: a location that starts with \<open>in in\<close> loses one \<open>in\<close> in each run
  (and a company with a parenthesis in the middle keeps two spaces that the second run
  collapses), so the second run returns other jobs than the first.
\<close>

theorem processJobs_second_run_changes_fields:
  "map location (jobs (processJobs exampleResolver [inInJob] defaults)) = [JStr (js ''in Paris'')] \<and>
   map location (jobs (processJobs exampleResolver
                         (jobs (processJobs exampleResolver [inInJob] defaults)) defaults))
     = [JStr (js ''Paris'')] \<and>
   jobs (processJobs exampleResolver (jobs (processJobs exampleResolver [inInJob] defaults)) defaults)
     \<noteq> jobs (processJobs exampleResolver [inInJob] defaults)"
  by code_simp

section \<open>Validation of the parameters\<close>

lemma nonEmptyString: "\<not> missingString v \<longleftrightarrow> (\<exists>k. v = JStr k \<and> k \<noteq> [])"
  by (cases v) (simp_all add: missingString_def)

lemma indeed_pages_ok:
  "(\<not> (numTruthy mp \<and> (\<not> typeofNumber mp \<or> lessThanOne mp))) \<longleftrightarrow>
     (mp = NUndefined \<or> mp = NNull \<or> mp = NNaN \<or> mp = NNum 0 \<or> (\<exists>n. mp = NNum n \<and> 1 \<le> n))"
  by (cases mp) auto

lemma parseInt_plain:
  "1 / 10 ^ 6 \<le> q \<Longrightarrow> q < 10 ^ 21 \<Longrightarrow> parseInt (NNum q) = Some \<lfloor>q\<rfloor>"
  by auto

lemma floor_bounds: "(1 \<le> \<lfloor>q\<rfloor> \<and> \<lfloor>q\<rfloor> \<le> 20) \<longleftrightarrow> (1 \<le> q \<and> q < 21)" for q :: rat
proof -
  have "1 \<le> \<lfloor>q\<rfloor> \<longleftrightarrow> 1 \<le> q" by (simp add: le_floor_iff)
  moreover have "\<lfloor>q\<rfloor> \<le> 20 \<longleftrightarrow> q < 21" using floor_less_iff[of q 21] by simp
  ultimately show ?thesis by simp
qed

text \<open>
  C7, as the code has it. The Naukri adapters accept the parameters exactly when keyword
  and location are non-empty strings and \<open>maxPages\<close> is absent or \<open>parseInt\<close> reads a
  number from 1 to 20 out of it. \<open>parseInt\<close> cuts fractions off: of the numbers that
  print in plain notation (from \<open>10^-6\<close> up to \<open>10^21\<close>) exactly those from 1 up to, but
  not including, 21 pass (20.5 passes), and a \<open>maxPages\<close> of 21 or more is rejected with
  the message about the bound. The Indeed adapters have no upper bound: they accept
  exactly when keyword and location are non-empty strings and \<open>maxPages\<close> is absent,
  \<open>null\<close>, \<open>NaN\<close>, 0, or a number from 1 up.
\<close>

theorem validateParams_page_bounds:
  "(isValid (validateParams_naukri p) \<longleftrightarrow>
      (\<exists>k. p_keyword p = JStr k \<and> k \<noteq> []) \<and> (\<exists>l. p_location p = JStr l \<and> l \<noteq> []) \<and>
      (p_maxPages p = NUndefined \<or> (\<exists>n. parseInt (p_maxPages p) = Some n \<and> 1 \<le> n \<and> n \<le> 20))) \<and>
   (isValid (validateParams_indeed p) \<longleftrightarrow>
      (\<exists>k. p_keyword p = JStr k \<and> k \<noteq> []) \<and> (\<exists>l. p_location p = JStr l \<and> l \<noteq> []) \<and>
      (p_maxPages p = NUndefined \<or> p_maxPages p = NNull \<or> p_maxPages p = NNaN \<or>
       p_maxPages p = NNum 0 \<or> (\<exists>n. p_maxPages p = NNum n \<and> 1 \<le> n))) \<and>
   (1 / 10 ^ 6 \<le> q \<and> q < 10 ^ 21 \<longrightarrow>
      (isValid (validateParams_naukri (p\<lparr> p_maxPages := NNum q \<rparr>)) \<longleftrightarrow>
         (\<exists>k. p_keyword p = JStr k \<and> k \<noteq> []) \<and> (\<exists>l. p_location p = JStr l \<and> l \<noteq> []) \<and>
         1 \<le> q \<and> q < 21)) \<and>
   (21 \<le> q \<and> q < 10 ^ 21 \<longrightarrow>
      \<not> isValid (validateParams_naukri (p\<lparr> p_maxPages := NNum q \<rparr>)) \<and>
      js ''maxPages must be a number between 1 and 20''
        \<in> set (messages (validateParams_naukri (p\<lparr> p_maxPages := NNum q \<rparr>)))) \<and>
   validateParams IndeedScraper p = validateParams_indeed p \<and>
   validateParams PlaywrightIndeedScraper p = validateParams_indeed p \<and>
   validateParams NaukriScraper p = validateParams_naukri p \<and>
   validateParams PlaywrightNaukriScraper p = validateParams_naukri p"
proof -
  have a: "isValid (validateParams_naukri p) \<longleftrightarrow>
      (\<exists>k. p_keyword p = JStr k \<and> k \<noteq> []) \<and> (\<exists>l. p_location p = JStr l \<and> l \<noteq> []) \<and>
      (p_maxPages p = NUndefined \<or> (\<exists>n. parseInt (p_maxPages p) = Some n \<and> 1 \<le> n \<and> n \<le> 20))"
    for p
    unfolding nonEmptyString[symmetric]
    by (auto simp: validateParams_naukri_def Let_def split: option.splits)
  have b: "isValid (validateParams_indeed p) \<longleftrightarrow>
      (\<exists>k. p_keyword p = JStr k \<and> k \<noteq> []) \<and> (\<exists>l. p_location p = JStr l \<and> l \<noteq> []) \<and>
      (p_maxPages p = NUndefined \<or> p_maxPages p = NNull \<or> p_maxPages p = NNaN \<or>
       p_maxPages p = NNum 0 \<or> (\<exists>n. p_maxPages p = NNum n \<and> 1 \<le> n))"
    unfolding nonEmptyString[symmetric] indeed_pages_ok[symmetric]
    by (simp add: validateParams_indeed_def Let_def)
  have c: "isValid (validateParams_naukri (p\<lparr> p_maxPages := NNum q \<rparr>)) \<longleftrightarrow>
         (\<exists>k. p_keyword p = JStr k \<and> k \<noteq> []) \<and> (\<exists>l. p_location p = JStr l \<and> l \<noteq> []) \<and>
         1 \<le> q \<and> q < 21"
    if "1 / 10 ^ 6 \<le> q" "q < 10 ^ 21"
    using a[of "p\<lparr> p_maxPages := NNum q \<rparr>"] parseInt_plain[OF that] floor_bounds[of q]
    by simp
  have d: "\<not> isValid (validateParams_naukri (p\<lparr> p_maxPages := NNum q \<rparr>)) \<and>
      js ''maxPages must be a number between 1 and 20''
        \<in> set (messages (validateParams_naukri (p\<lparr> p_maxPages := NNum q \<rparr>)))"
    if "21 \<le> q" "q < 10 ^ 21"
  proof -
    have "1 / 10 ^ 6 \<le> q" using that(1) by simp
    then have pi: "parseInt (NNum q) = Some \<lfloor>q\<rfloor>" using that(2) by (rule parseInt_plain)
    have "\<not> \<lfloor>q\<rfloor> \<le> 20" using floor_bounds[of q] that(1) by auto
    then show ?thesis
      by (simp add: validateParams_naukri_def Let_def pi del: parseInt.simps)
  qed
  show ?thesis using a[of p] b c d by simp
qed

theorem validateParams_page_bounds_witness:
  "isValid (validateParams NaukriScraper (devInPune (NNum 20))) \<and>
   isValid (validateParams NaukriScraper (devInPune (NNum (41 / 2)))) \<and>
   \<not> isValid (validateParams NaukriScraper (devInPune (NNum 21))) \<and>
   isValid (validateParams IndeedScraper (devInPune (NNum 21)))"
  using validateParams_page_bounds[of "devInPune (NNum 20)" 20]
        validateParams_page_bounds[of "devInPune (NNum 20)" "41 / 2"]
        validateParams_page_bounds[of "devInPune (NNum 21)" 21]
  by (simp add: devInPune_def js_def)

text \<open>
  C7 as stated fails: the Indeed adapters accept 25 pages, and the Naukri adapters accept
  20.5, which \<open>parseInt\<close> reads as 20.
\<close>

theorem indeed_accepts_25_pages:
  "isValid (validateParams IndeedScraper (devInPune (NNum 25))) \<and>
   isValid (validateParams PlaywrightIndeedScraper (devInPune (NNum 25))) \<and>
   isValid (validateParams NaukriScraper (devInPune (NNum (41 / 2))))"
  by code_simp

text \<open>
  C10. The Indeed adapters accept a page count of 0 whenever keyword and location are
  non-empty strings: a falsy \<open>maxPages\<close> skips the check of the page count.
\<close>

theorem validateParams_indeed_zero_pages:
  "k \<noteq> [] \<Longrightarrow> l \<noteq> [] \<Longrightarrow>
   isValid (validateParams IndeedScraper \<lparr> p_keyword = JStr k, p_location = JStr l, p_maxPages = NNum 0 \<rparr>) \<and>
   isValid (validateParams PlaywrightIndeedScraper \<lparr> p_keyword = JStr k, p_location = JStr l, p_maxPages = NNum 0 \<rparr>)"
  by (simp add: validateParams_indeed_def missingString_def)

theorem validateParams_indeed_zero_pages_witness:
  "isValid (validateParams IndeedScraper (devInPune (NNum 0))) \<and>
   isValid (validateParams PlaywrightIndeedScraper (devInPune (NNum 0)))"
  using validateParams_indeed_zero_pages[of "js ''dev''" "js ''Pune''"]
  by (simp add: devInPune_def js_def)

section \<open>Extraction\<close>

lemma truthy_cheerioText: "truthy (cheerioText el) = resolved el"
  by (cases el) (simp_all add: cheerioText_def resolved_def Let_def trim_def)

lemma truthy_domText: "truthy (domText el) = resolved el"
  by (cases el) (simp_all add: domText_def resolved_def)

lemma length_map_filter: "length (List.map_filter f xs) = length (filter (\<lambda>x. f x \<noteq> None) xs)"
  by (induction xs) (auto simp: List.map_filter_simps split: option.splits)

lemma indeedCard_contributes:
  "indeedCard base c \<noteq> None \<longleftrightarrow> resolved (titleText c) \<or> resolved (companyText c)"
  by (simp add: indeedCard_def Let_def truthy_cheerioText)

lemma naukriCard_contributes:
  "naukriCard base c \<noteq> None \<longleftrightarrow> resolved (titleText c) \<or> resolved (companyText c)"
  by (simp add: naukriCard_def Let_def truthy_cheerioText)

lemma playwrightNaukriCard_contributes:
  "playwrightNaukriCard c \<noteq> None \<longleftrightarrow> resolved (titleText c) \<or> resolved (companyText c)"
  by (simp add: playwrightNaukriCard_def Let_def truthy_domText)

lemma playwrightIndeedCard_contributes:
  "playwrightIndeedCard c \<noteq> None \<longleftrightarrow> resolved (titleText c) \<and> resolved (companyText c)"
  by (simp add: playwrightIndeedCard_def Let_def truthy_domText)

lemma devCard_resolved: "resolved (titleText devCard)" "resolved (companyText devCard)"
  by code_simp+

text \<open>
  C8, as the code has it. In \<open>IndeedScraper\<close>, \<open>NaukriScraper\<close> and
  \<open>PlaywrightNaukriScraper\<close> a card contributes a fragment exactly when its title or its
  company resolved to a non-empty string; in \<open>PlaywrightIndeedScraper\<close> exactly when
  both did. Every other card is skipped, and no extractor fails on a card: each returns
  one fragment per contributing card.
\<close>

theorem card_contributes:
  "(indeedCard base c \<noteq> None \<longleftrightarrow> resolved (titleText c) \<or> resolved (companyText c)) \<and>
   (naukriCard base c \<noteq> None \<longleftrightarrow> resolved (titleText c) \<or> resolved (companyText c)) \<and>
   (playwrightNaukriCard c \<noteq> None \<longleftrightarrow> resolved (titleText c) \<or> resolved (companyText c)) \<and>
   (playwrightIndeedCard c \<noteq> None \<longleftrightarrow> resolved (titleText c) \<and> resolved (companyText c)) \<and>
   length (parseJobListings_indeed base cards) =
     length (filter (\<lambda>c. resolved (titleText c) \<or> resolved (companyText c)) cards) \<and>
   length (parseJobListings_naukri base cards) =
     length (filter (\<lambda>c. resolved (titleText c) \<or> resolved (companyText c)) cards) \<and>
   length (extractJobs cards) =
     length (filter (\<lambda>c. resolved (titleText c) \<or> resolved (companyText c)) cards) \<and>
   length (extractJobListings cards) =
     length (filter (\<lambda>c. resolved (titleText c) \<and> resolved (companyText c)) cards)"
  unfolding parseJobListings_indeed_def parseJobListings_naukri_def extractJobs_def
    extractJobListings_def length_map_filter
  by (simp only: indeedCard_contributes naukriCard_contributes playwrightNaukriCard_contributes
      playwrightIndeedCard_contributes simp_thms)

theorem card_contributes_witness:
  "indeedCard (js ''https://in.indeed.com'') titleOnlyCard \<noteq> None \<and>
   playwrightNaukriCard titleOnlyCard \<noteq> None \<and>
   playwrightIndeedCard devCard \<noteq> None"
  using card_contributes[of "js ''https://in.indeed.com''" titleOnlyCard "[]"]
        card_contributes[of "js ''https://in.indeed.com''" devCard "[]"]
  by (simp add: resolved_def titleOnlyCard_def devCard_def trim_def js_def isWhiteSpace_def)

text \<open>
  C8 as stated fails: \<open>PlaywrightIndeedScraper\<close> skips a card that has a title and no
  company.
\<close>

theorem playwrightIndeed_skips_title_only:
  "extractJobListings [titleOnlyCard] = []"
  by code_simp

section \<open>What scrape returns\<close>

text \<open>
  C1. For valid parameters \<open>NaukriScraper.scrape\<close> and \<open>PlaywrightNaukriScraper.scrape\<close>
  resolve to the object \<open>processJobs\<close> returns (jobs and statistics), not to the array of
  listings: here on a site with one card, asked for one page.
\<close>

theorem naukri_scrape_returns_object:
  "isValid (validateParams NaukriScraper (devInPune (NNum 1))) \<and>
   fst (scrape NaukriScraper onePageWorld (devInPune (NNum 1)) (newScraper (js ''https://www.naukri.com'')))
     = Inr (Processed (processJobs exampleResolver
             (parseJobListings_naukri (js ''https://www.naukri.com'') [devCard]) defaults)) \<and>
   fst (scrape PlaywrightNaukriScraper onePageWorld (devInPune (NNum 1)) (newScraper (js ''https://www.naukri.com'')))
     = Inr (Processed (processJobs exampleResolver (extractJobs [devCard]) defaults))"
  by code_simp

section \<open>Early stop\<close>

lemma fetchAndParse_served:
  "served w n = Some cards \<Longrightarrow>
   fetchAndParse w n s =
     (Inr cards, s\<lparr> requestsMade := requestsMade s + 1, requested := requested s @ [n],
                    successfulRequests := successfulRequests s + 1 \<rparr>)"
  by (auto simp: served_def fetchAndParse_def fetchPage_def parseHtml_def Let_def
      split: sum.splits body.splits)

lemma fetchAndParse_blank:
  "fetchHtml w n = Inr NoHtml \<Longrightarrow>
   fetchAndParse w n s =
     (Inl (js ''HTML must be a non-empty string''),
      s\<lparr> requestsMade := requestsMade s + 1, requested := requested s @ [n],
         successfulRequests := successfulRequests s + 1 \<rparr>)"
  by (simp add: fetchAndParse_def fetchPage_def parseHtml_def Let_def)

lemma emptyFromPage2_later:
  "emptyFromPage2 extract pages first \<Longrightarrow> 2 \<le> n \<Longrightarrow>
   \<exists>cards. pages n = Some cards \<and> extract cards = []"
  by (simp add: emptyFromPage2_def)

lemma indeedPages_early_stop:
  assumes stub: "emptyFromPage2 (parseJobListings_indeed (siteUrl s)) (served w) c1"
  shows "\<exists>s'. indeedPages w None 10 0 0 [] s = (Inr (parseJobListings_indeed (siteUrl s) c1), s') \<and>
              requested s' = requested s @ [1, 2, 3] \<and> siteUrl s' = siteUrl s"
proof -
  have c1: "served w 1 = Some c1" "parseJobListings_indeed (siteUrl s) c1 \<noteq> []"
    using stub by (simp_all add: emptyFromPage2_def)
  obtain c2 where c2: "served w 2 = Some c2" "parseJobListings_indeed (siteUrl s) c2 = []"
    using emptyFromPage2_later[OF stub, of 2] by auto
  obtain c3 where c3: "served w 3 = Some c3" "parseJobListings_indeed (siteUrl s) c3 = []"
    using emptyFromPage2_later[OF stub, of 3] by auto
  show ?thesis
    apply (subst indeedPages.simps)
    apply (simp add: fetchAndParse_served c1 Let_def report_def)
    apply (subst indeedPages.simps)
    apply (simp add: fetchAndParse_served c2 Let_def report_def)
    apply (subst indeedPages.simps)
    apply (simp add: fetchAndParse_served c3 Let_def report_def)
    done
qed

lemma indeedPages_blank:
  assumes stub: "blankFromPage2 (parseJobListings_indeed (siteUrl s)) w c1"
  shows "\<exists>s'. indeedPages w None 10 0 0 [] s = (Inr (parseJobListings_indeed (siteUrl s) c1), s') \<and>
              requested s' = requested s @ [1, 2, 3, 4] \<and> siteUrl s' = siteUrl s"
proof -
  have c1: "served w 1 = Some c1" "parseJobListings_indeed (siteUrl s) c1 \<noteq> []"
    using stub by (simp_all add: blankFromPage2_def)
  have b: "fetchHtml w 2 = Inr NoHtml" "fetchHtml w 3 = Inr NoHtml" "fetchHtml w 4 = Inr NoHtml"
    using stub by (simp_all add: blankFromPage2_def)
  show ?thesis
    apply (subst indeedPages.simps)
    apply (simp add: fetchAndParse_served c1 Let_def report_def)
    apply (subst indeedPages.simps)
    apply (simp add: fetchAndParse_blank b Let_def)
    apply (subst indeedPages.simps)
    apply (simp add: fetchAndParse_blank b Let_def)
    apply (subst indeedPages.simps)
    apply (simp add: fetchAndParse_blank b Let_def)
    done
qed

lemma scrape_indeed_result:
  assumes l: "indeedPages w None 10 0 0 [] s = (Inr found, s')" "requested s' = requested s @ pages"
    "siteUrl s' = siteUrl s"
    and p: "indeedUrlError p = None" "p_maxPages p = NNum 10"
  shows "fst (scrape_indeed w p s) =
           Inr (Listings (jobs (processJobs (resolveUrl w) found
                  \<lparr> baseUrl = Some (siteUrl s), dedupeBy = Some (js ''jobId''),
                    removeInvalid = Some True \<rparr>))) \<and>
         requested (snd (scrape_indeed w p s)) = requested s @ pages"
  using l by (simp add: scrape_indeed_def p Let_def)

lemma naukriPages_early_stop:
  assumes stub: "emptyFromPage2 (parseJobListings_naukri (siteUrl s)) (served w) c1"
  shows "\<exists>s'. naukriPages w None 10 1 [] s = (Inr (parseJobListings_naukri (siteUrl s) c1), s') \<and>
              requested s' = requested s @ [1, 2]"
proof -
  have c1: "served w 1 = Some c1" "parseJobListings_naukri (siteUrl s) c1 \<noteq> []"
    using stub by (simp_all add: emptyFromPage2_def)
  obtain c2 where c2: "served w 2 = Some c2" "parseJobListings_naukri (siteUrl s) c2 = []"
    using emptyFromPage2_later[OF stub, of 2] by auto
  show ?thesis
    apply (subst naukriPages.simps)
    apply (simp add: fetchAndParse_served c1 Let_def report_def)
    apply (subst naukriPages.simps)
    apply (simp add: fetchAndParse_served c2 Let_def report_def)
    done
qed

text \<open>From a page on whose body, and that of every later page, is empty, the loop of
  \<open>NaukriScraper\<close> requests every page up to the last and collects nothing more.\<close>

lemma naukriPages_blank_rest:
  assumes rest: "\<forall>n\<ge>2. fetchHtml w n = Inr NoHtml"
  shows "2 \<le> cur \<Longrightarrow>
         \<exists>s'. naukriPages w None maxPages cur allJobs s = (Inr allJobs, s') \<and>
              requested s' = requested s @ [cur .. \<lfloor>maxPages\<rfloor>]"
proof (induction "nat (\<lfloor>maxPages\<rfloor> + 1 - cur)" arbitrary: cur s)
  case 0
  then have "\<not> cur \<le> \<lfloor>maxPages\<rfloor>" by simp
  then have "\<not> of_int cur \<le> maxPages" by (simp add: le_floor_iff)
  moreover have "[cur .. \<lfloor>maxPages\<rfloor>] = []" using \<open>\<not> cur \<le> \<lfloor>maxPages\<rfloor>\<close> by simp
  ultimately show ?case by (subst naukriPages.simps) simp
next
  case (Suc k)
  then have le: "cur \<le> \<lfloor>maxPages\<rfloor>" by linarith
  then have cond: "of_int cur \<le> maxPages" by (simp add: le_floor_iff)
  let ?s1 = "s\<lparr> requestsMade := requestsMade s + 1, requested := requested s @ [cur],
                 successfulRequests := successfulRequests s + 1 \<rparr>"
  have blank: "fetchHtml w cur = Inr NoHtml" using rest Suc.prems by simp
  have up: "[cur .. \<lfloor>maxPages\<rfloor>] = cur # [cur + 1 .. \<lfloor>maxPages\<rfloor>]"
    using le by (simp add: upto_rec1)
  have k: "k = nat (\<lfloor>maxPages\<rfloor> + 1 - (cur + 1))" using Suc.hyps(2) by linarith
  have next_ok: "2 \<le> cur + 1" using Suc.prems by simp
  obtain s' where "naukriPages w None maxPages (cur + 1) allJobs ?s1 = (Inr allJobs, s')"
    "requested s' = requested ?s1 @ [cur + 1 .. \<lfloor>maxPages\<rfloor>]"
    using Suc.hyps(1)[OF k next_ok, of ?s1] by blast
  then show ?case using cond up
    by (subst naukriPages.simps) (simp add: fetchAndParse_blank[OF blank])
qed

lemma naukriPages_blank:
  assumes stub: "blankFromPage2 (parseJobListings_naukri (siteUrl s)) w c1"
  shows "\<exists>s'. naukriPages w None 10 1 [] s = (Inr (parseJobListings_naukri (siteUrl s) c1), s') \<and>
              requested s' = requested s @ [1, 2, 3, 4, 5, 6, 7, 8, 9, 10]"
proof -
  have c1: "served w 1 = Some c1" "parseJobListings_naukri (siteUrl s) c1 \<noteq> []"
    using stub by (simp_all add: blankFromPage2_def)
  have rest: "\<forall>n\<ge>2. fetchHtml w n = Inr NoHtml"
    using stub by (simp add: blankFromPage2_def)
  let ?all = "parseJobListings_naukri (siteUrl s) c1"
  have "\<exists>s1. naukriPages w None 10 1 [] s = naukriPages w None 10 2 ?all s1 \<and>
          requested s1 = requested s @ [1]"
    apply (subst naukriPages.simps)
    apply (simp add: fetchAndParse_served c1 Let_def report_def)
    apply (rule exI, rule conjI, rule refl)
    apply simp
    done
  then obtain s1 where s1: "naukriPages w None 10 1 [] s = naukriPages w None 10 2 ?all s1"
    "requested s1 = requested s @ [1]" by blast
  obtain s' where s': "naukriPages w None 10 2 ?all s1 = (Inr ?all, s')"
    "requested s' = requested s1 @ [2 .. \<lfloor>10 :: rat\<rfloor>]"
    using naukriPages_blank_rest[OF rest, of 2 10 ?all s1] by auto
  have ten: "[2 .. \<lfloor>10 :: rat\<rfloor>] = [2, 3, 4, 5, 6, 7, 8, 9, 10]"
    by (simp add: upto_rec1)
  show ?thesis using s1 s' ten by simp
qed

lemma scrape_naukri_result:
  assumes l: "naukriPages w None 10 1 [] s = (Inr found, s')" "requested s' = requested s @ pages"
    and p: "naukriUrlError p = None" "p_maxPages p = NNum 10"
  shows "fst (scrape_naukri w p s) = Inr (Processed (processJobs (resolveUrl w) found defaults)) \<and>
         requested (snd (scrape_naukri w p s)) = requested s @ pages"
  using l by (simp add: scrape_naukri_def p Let_def)

lemma initialize_works:
  "browserWorks w \<Longrightarrow>
   initialize w s = (None, s\<lparr> browser := True, launches := launches s + 1, page := True \<rparr>)"
  by (simp add: initialize_def browserWorks_def Let_def)

lemma navigate_works:
  "browserWorks w \<Longrightarrow>
   navigate w n s =
     (None, s\<lparr> requestsMade := requestsMade s + 1, requested := requested s @ [n],
                successfulRequests := successfulRequests s + 1 \<rparr>)"
  by (simp add: navigate_def browserWorks_def Let_def)

lemma closeHandles_works:
  "browserWorks w \<Longrightarrow> fst (closeHandles w s) = None \<and> requested (snd (closeHandles w s)) = requested s"
  by (simp add: closeHandles_def browserWorks_def)

lemma rendered_evaluate: "rendered w n = Some cards \<Longrightarrow> evaluate w n = Inr cards"
  by (simp add: rendered_def split: sum.splits)

lemma playwrightNaukri_early_stop:
  assumes stub: "emptyFromPage2 extractJobs (rendered w) c1" and bw: "browserWorks w"
    and p: "naukriUrlError p = None" "p_maxPages p = NNum 10"
  shows "fst (scrape_playwrightNaukri w p s)
           = Inr (Processed (processJobs (resolveUrl w) (extractJobs c1) defaults)) \<and>
         requested (snd (scrape_playwrightNaukri w p s)) = requested s @ [1, 2]"
proof -
  have c1: "evaluate w 1 = Inr c1" "extractJobs c1 \<noteq> []"
    using stub by (simp_all add: emptyFromPage2_def rendered_evaluate)
  obtain c2 where c2: "evaluate w 2 = Inr c2" "extractJobs c2 = []"
    using emptyFromPage2_later[OF stub, of 2] by (auto simp: rendered_evaluate)
  let ?s0 = "s\<lparr> browser := True, launches := launches s + 1, page := True \<rparr>"
  have "\<exists>s'. playwrightNaukriPages w None 10 1 [] ?s0 = (Inr (extractJobs c1), s') \<and>
          requested s' = requested s @ [1, 2]"
    apply (subst playwrightNaukriPages.simps)
    apply (simp add: navigate_works[OF bw] c1 Let_def report_def)
    apply (subst playwrightNaukriPages.simps)
    apply (simp add: navigate_works[OF bw] c2 Let_def report_def)
    done
  then obtain s' where l: "playwrightNaukriPages w None 10 1 [] ?s0 = (Inr (extractJobs c1), s')"
    "requested s' = requested s @ [1, 2]" by blast
  obtain e s'' where ch: "closeHandles w s' = (e, s'')" by (cases "closeHandles w s'")
  then have "e = None" "requested s'' = requested s'" using closeHandles_works[OF bw, of s'] by simp_all
  then show ?thesis
    using l ch
    by (simp add: scrape_playwrightNaukri_def p Let_def initialize_works[OF bw]
        cleanup_playwrightNaukri_def)
qed

lemma playwrightIndeed_rest:
  assumes bw: "browserWorks w"
    and rest: "\<forall>n\<ge>2. \<exists>cards. evaluate w n = Inr cards \<and> extractJobListings cards = []"
  shows "1 \<le> pg \<Longrightarrow>
         \<exists>s'. playwrightIndeedPages w None maxPages pg allJobs s = (Inr allJobs, s') \<and>
              requested s' = requested s @ [pg + 1 .. \<lceil>maxPages\<rceil>]"
proof (induction "nat (\<lceil>maxPages\<rceil> - pg)" arbitrary: pg s)
  case 0
  then have n: "\<not> pg < \<lceil>maxPages\<rceil>" by simp
  then have "\<not> of_int pg < maxPages" by (simp add: less_ceiling_iff)
  moreover have "[pg + 1 .. \<lceil>maxPages\<rceil>] = []" using n by simp
  ultimately show ?case by (subst playwrightIndeedPages.simps) simp
next
  case (Suc k)
  then have lt: "pg < \<lceil>maxPages\<rceil>" by linarith
  then have cond: "of_int pg < maxPages" by (simp add: less_ceiling_iff)
  let ?s1 = "s\<lparr> requestsMade := requestsMade s + 1, requested := requested s @ [pg + 1],
                 successfulRequests := successfulRequests s + 1 \<rparr>"
  have nav: "navigate w (pg + 1) s = (None, ?s1)" by (simp add: navigate_works[OF bw])
  have "2 \<le> pg + 1" using Suc.prems by simp
  then obtain cards where cards: "evaluate w (pg + 1) = Inr cards" "extractJobListings cards = []"
    using rest by blast
  have up: "[pg + 1 .. \<lceil>maxPages\<rceil>] = (pg + 1) # [pg + 1 + 1 .. \<lceil>maxPages\<rceil>]"
    using lt by (simp add: upto_rec1)
  have k: "k = nat (\<lceil>maxPages\<rceil> - (pg + 1))" using Suc.hyps(2) by linarith
  have next_ok: "1 \<le> pg + 1" using Suc.prems by simp
  show ?case
  proof (cases "waitForSelector w (pg + 1)")
    case False
    obtain s' where "playwrightIndeedPages w None maxPages (pg + 1) allJobs ?s1 = (Inr allJobs, s')"
      "requested s' = requested ?s1 @ [pg + 1 + 1 .. \<lceil>maxPages\<rceil>]"
      using Suc.hyps(1)[OF k next_ok, of ?s1] by blast
    then show ?thesis using cond nav False up
      by (subst playwrightIndeedPages.simps) simp
  next
    case True
    let ?s2 = "report (pg + 1) maxPages (length allJobs) (?s1\<lparr> leadsExtracted := leadsExtracted ?s1 + 0 \<rparr>)"
    obtain s' where "playwrightIndeedPages w None maxPages (pg + 1) allJobs ?s2 = (Inr allJobs, s')"
      "requested s' = requested ?s2 @ [pg + 1 + 1 .. \<lceil>maxPages\<rceil>]"
      using Suc.hyps(1)[OF k next_ok, of ?s2] by blast
    then show ?thesis using cond nav True up cards
      by (subst playwrightIndeedPages.simps) (simp add: Let_def report_def)
  qed
qed

lemma playwrightIndeed_no_early_stop:
  assumes stub: "emptyFromPage2 extractJobListings (rendered w) c1" and bw: "browserWorks w"
    and sel: "waitForSelector w 1"
    and p: "indeedUrlError p = None" "p_maxPages p = NNum 10"
  shows "fst (scrape_playwrightIndeed w p s)
           = Inr (Listings (map (withPage 1) (extractJobListings c1))) \<and>
         requested (snd (scrape_playwrightIndeed w p s)) = requested s @ [1, 2, 3, 4, 5, 6, 7, 8, 9, 10]"
proof -
  have c1: "evaluate w 1 = Inr c1" "extractJobListings c1 \<noteq> []"
    using stub by (simp_all add: emptyFromPage2_def rendered_evaluate)
  have rest: "\<forall>n\<ge>2. \<exists>cards. evaluate w n = Inr cards \<and> extractJobListings cards = []"
    using emptyFromPage2_later[OF stub] by (metis rendered_evaluate)
  let ?s0 = "s\<lparr> browser := True, launches := launches s + 1, page := True \<rparr>"
  let ?all = "map (withPage 1) (extractJobListings c1)"
  have "\<exists>s1. playwrightIndeedPages w None 10 0 [] ?s0 = playwrightIndeedPages w None 10 1 ?all s1 \<and>
          requested s1 = requested s @ [1]"
    apply (subst playwrightIndeedPages.simps)
    apply (simp add: navigate_works[OF bw] sel c1 Let_def report_def)
    apply (rule exI, rule conjI, rule refl)
    apply simp
    done
  then obtain s1 where s1: "playwrightIndeedPages w None 10 0 [] ?s0 = playwrightIndeedPages w None 10 1 ?all s1"
    "requested s1 = requested s @ [1]" by blast
  obtain s' where s': "playwrightIndeedPages w None 10 1 ?all s1 = (Inr ?all, s')"
    "requested s' = requested s1 @ [1 + 1 .. \<lceil>10 :: rat\<rceil>]"
    using playwrightIndeed_rest[OF bw rest, of 1 10 ?all s1] by auto
  have ten: "[1 + 1 .. \<lceil>10 :: rat\<rceil>] = [2, 3, 4, 5, 6, 7, 8, 9, 10]"
    by (simp add: upto_rec1)
  have loop: "playwrightIndeedPages w None 10 0 [] ?s0 = (Inr ?all, s')"
    using s1(1) s'(1) by simp
  have req: "requested s' = requested s @ [1, 2, 3, 4, 5, 6, 7, 8, 9, 10]"
    using s'(2) s1(2) ten by simp
  obtain e s'' where ch: "closeHandles w s' = (e, s'')" by (cases "closeHandles w s'")
  then have "requested s'' = requested s'" using closeHandles_works[OF bw, of s'] by simp
  then show ?thesis
    using loop req ch
    by (simp add: scrape_playwrightIndeed_def p Let_def initialize_works[OF bw]
        cleanup_playwrightIndeed_def)
qed

text \<open>
  C2, as the code has it. The site answers page 1 with a document whose cards \<open>c1\<close> yield
  fragments and every page from 2 on with a document whose cards yield none; 10 pages are
  asked for. \<open>IndeedScraper\<close> stops after two consecutive empty pages (it requests pages
  1, 2, 3) and returns the fragments of page 1 as \<open>processJobs\<close> leaves them;
  \<open>NaukriScraper\<close> and \<open>PlaywrightNaukriScraper\<close> stop on the first empty page (pages
  1, 2) and return what \<open>processJobs\<close> returns for the fragments of page 1;
  \<open>PlaywrightIndeedScraper\<close> has no early stop: it visits all 10 pages and returns the
  fragments of page 1. No run ends with an error. An answer with an empty body is not
  an empty page but an error of that page: when every page from 2 on is answered so,
  \<open>IndeedScraper\<close> stops after three of them (pages 1 to 4) and \<open>NaukriScraper\<close>
  requests all 10 pages; both return what page 1 gave.
\<close>

theorem early_stop_by_adapter:
  assumes "p_keyword p = JStr k" "k \<noteq> []" "p_location p = JStr l" "l \<noteq> []"
    and "p_maxPages p = NNum 10"
  shows
    "(emptyFromPage2 (parseJobListings_indeed (siteUrl s)) (served w) c1 \<longrightarrow>
        fst (scrape IndeedScraper w p s) =
          Inr (Listings (jobs (processJobs (resolveUrl w) (parseJobListings_indeed (siteUrl s) c1)
                 \<lparr> baseUrl = Some (siteUrl s), dedupeBy = Some (js ''jobId''),
                   removeInvalid = Some True \<rparr>))) \<and>
        requested (snd (scrape IndeedScraper w p s)) = requested s @ [1, 2, 3]) \<and>
     (emptyFromPage2 (parseJobListings_naukri (siteUrl s)) (served w) c1 \<longrightarrow>
        fst (scrape NaukriScraper w p s) =
          Inr (Processed (processJobs (resolveUrl w) (parseJobListings_naukri (siteUrl s) c1)
                 defaults)) \<and>
        requested (snd (scrape NaukriScraper w p s)) = requested s @ [1, 2]) \<and>
     (browserWorks w \<and> emptyFromPage2 extractJobs (rendered w) c1 \<longrightarrow>
        fst (scrape PlaywrightNaukriScraper w p s) =
          Inr (Processed (processJobs (resolveUrl w) (extractJobs c1) defaults)) \<and>
        requested (snd (scrape PlaywrightNaukriScraper w p s)) = requested s @ [1, 2]) \<and>
     (browserWorks w \<and> waitForSelector w 1 \<and> emptyFromPage2 extractJobListings (rendered w) c1 \<longrightarrow>
        fst (scrape PlaywrightIndeedScraper w p s) =
          Inr (Listings (map (withPage 1) (extractJobListings c1))) \<and>
        requested (snd (scrape PlaywrightIndeedScraper w p s))
          = requested s @ [1, 2, 3, 4, 5, 6, 7, 8, 9, 10]) \<and>
     (blankFromPage2 (parseJobListings_indeed (siteUrl s)) w c1 \<longrightarrow>
        fst (scrape IndeedScraper w p s) =
          Inr (Listings (jobs (processJobs (resolveUrl w) (parseJobListings_indeed (siteUrl s) c1)
                 \<lparr> baseUrl = Some (siteUrl s), dedupeBy = Some (js ''jobId''),
                   removeInvalid = Some True \<rparr>))) \<and>
        requested (snd (scrape IndeedScraper w p s)) = requested s @ [1, 2, 3, 4]) \<and>
     (blankFromPage2 (parseJobListings_naukri (siteUrl s)) w c1 \<longrightarrow>
        fst (scrape NaukriScraper w p s) =
          Inr (Processed (processJobs (resolveUrl w) (parseJobListings_naukri (siteUrl s) c1)
                 defaults)) \<and>
        requested (snd (scrape NaukriScraper w p s))
          = requested s @ [1, 2, 3, 4, 5, 6, 7, 8, 9, 10])"
proof -
  have i: "indeedUrlError p = None"
    using assms by (simp add: indeedUrlError_def missingString_def)
  have n: "naukriUrlError p = None"
    using assms by (simp add: naukriUrlError_def notAString_def)
  have a: "fst (scrape IndeedScraper w p s) =
          Inr (Listings (jobs (processJobs (resolveUrl w) (parseJobListings_indeed (siteUrl s) c1)
                 \<lparr> baseUrl = Some (siteUrl s), dedupeBy = Some (js ''jobId''),
                   removeInvalid = Some True \<rparr>))) \<and>
        requested (snd (scrape IndeedScraper w p s)) = requested s @ [1, 2, 3]"
    if stub: "emptyFromPage2 (parseJobListings_indeed (siteUrl s)) (served w) c1"
  proof -
    obtain s' where "indeedPages w None 10 0 0 [] s = (Inr (parseJobListings_indeed (siteUrl s) c1), s')"
      "requested s' = requested s @ [1, 2, 3]" "siteUrl s' = siteUrl s"
      using indeedPages_early_stop[OF stub] by blast
    then show ?thesis using scrape_indeed_result[OF _ _ _ i assms(5)] by simp
  qed
  have b: "fst (scrape NaukriScraper w p s) =
          Inr (Processed (processJobs (resolveUrl w) (parseJobListings_naukri (siteUrl s) c1)
                 defaults)) \<and>
        requested (snd (scrape NaukriScraper w p s)) = requested s @ [1, 2]"
    if stub: "emptyFromPage2 (parseJobListings_naukri (siteUrl s)) (served w) c1"
  proof -
    obtain s' where "naukriPages w None 10 1 [] s = (Inr (parseJobListings_naukri (siteUrl s) c1), s')"
      "requested s' = requested s @ [1, 2]"
      using naukriPages_early_stop[OF stub] by blast
    then show ?thesis using scrape_naukri_result[OF _ _ n assms(5)] by simp
  qed
  have c: "fst (scrape IndeedScraper w p s) =
          Inr (Listings (jobs (processJobs (resolveUrl w) (parseJobListings_indeed (siteUrl s) c1)
                 \<lparr> baseUrl = Some (siteUrl s), dedupeBy = Some (js ''jobId''),
                   removeInvalid = Some True \<rparr>))) \<and>
        requested (snd (scrape IndeedScraper w p s)) = requested s @ [1, 2, 3, 4]"
    if stub: "blankFromPage2 (parseJobListings_indeed (siteUrl s)) w c1"
  proof -
    obtain s' where "indeedPages w None 10 0 0 [] s = (Inr (parseJobListings_indeed (siteUrl s) c1), s')"
      "requested s' = requested s @ [1, 2, 3, 4]" "siteUrl s' = siteUrl s"
      using indeedPages_blank[OF stub] by blast
    then show ?thesis using scrape_indeed_result[OF _ _ _ i assms(5)] by simp
  qed
  have d: "fst (scrape NaukriScraper w p s) =
          Inr (Processed (processJobs (resolveUrl w) (parseJobListings_naukri (siteUrl s) c1)
                 defaults)) \<and>
        requested (snd (scrape NaukriScraper w p s))
          = requested s @ [1, 2, 3, 4, 5, 6, 7, 8, 9, 10]"
    if stub: "blankFromPage2 (parseJobListings_naukri (siteUrl s)) w c1"
  proof -
    obtain s' where "naukriPages w None 10 1 [] s = (Inr (parseJobListings_naukri (siteUrl s) c1), s')"
      "requested s' = requested s @ [1, 2, 3, 4, 5, 6, 7, 8, 9, 10]"
      using naukriPages_blank[OF stub] by blast
    then show ?thesis using scrape_naukri_result[OF _ _ n assms(5)] by simp
  qed
  show ?thesis
    using a b c d
          playwrightNaukri_early_stop[OF _ _ n assms(5), of w c1 s]
          playwrightIndeed_no_early_stop[OF _ _ _ i assms(5), of w c1 s]
    by simp
qed

lemma requested_newScraper: "requested (newScraper base) = []"
  by (simp add: newScraper_def)

lemma devCard_fragments:
  "parseJobListings_indeed base [devCard] \<noteq> []"
  "parseJobListings_naukri base [devCard] \<noteq> []"
  "extractJobs [devCard] \<noteq> []"
  "extractJobListings [devCard] \<noteq> []"
proof -
  show "parseJobListings_indeed base [devCard] \<noteq> []"
    using indeedCard_contributes[of base devCard] devCard_resolved
    by (auto simp: parseJobListings_indeed_def List.map_filter_simps)
  show "parseJobListings_naukri base [devCard] \<noteq> []"
    using naukriCard_contributes[of base devCard] devCard_resolved
    by (auto simp: parseJobListings_naukri_def List.map_filter_simps)
  show "extractJobs [devCard] \<noteq> []"
    using playwrightNaukriCard_contributes[of devCard] devCard_resolved
    by (auto simp: extractJobs_def List.map_filter_simps)
  show "extractJobListings [devCard] \<noteq> []"
    using playwrightIndeedCard_contributes[of devCard] devCard_resolved
    by (auto simp: extractJobListings_def List.map_filter_simps)
qed

lemma onePageWorld_http:
  "emptyFromPage2 (parseJobListings_indeed base) (served onePageWorld) [devCard]"
  "emptyFromPage2 (parseJobListings_naukri base) (served onePageWorld) [devCard]"
  using devCard_fragments(1,2)[of base]
  by (simp_all add: emptyFromPage2_def served_def onePageWorld_def parseJobListings_indeed_def
      parseJobListings_naukri_def List.map_filter_simps)

lemma onePageWorld_browser:
  "browserWorks onePageWorld"
  "waitForSelector onePageWorld 1"
  "emptyFromPage2 extractJobs (rendered onePageWorld) [devCard]"
  "emptyFromPage2 extractJobListings (rendered onePageWorld) [devCard]"
proof -
  show "browserWorks onePageWorld" "waitForSelector onePageWorld 1"
    by (simp_all add: browserWorks_def onePageWorld_def)
  show "emptyFromPage2 extractJobs (rendered onePageWorld) [devCard]"
    using devCard_fragments(3)
    by (simp add: emptyFromPage2_def rendered_def onePageWorld_def extractJobs_def
        List.map_filter_simps)
  show "emptyFromPage2 extractJobListings (rendered onePageWorld) [devCard]"
    using devCard_fragments(4)
    by (simp add: emptyFromPage2_def rendered_def onePageWorld_def extractJobListings_def
        List.map_filter_simps)
qed

lemma blankPagesWorld_http:
  "blankFromPage2 (parseJobListings_indeed base) blankPagesWorld [devCard]"
  "blankFromPage2 (parseJobListings_naukri base) blankPagesWorld [devCard]"
  using devCard_fragments(1,2)[of base]
  by (simp_all add: blankFromPage2_def served_def blankPagesWorld_def onePageWorld_def)

theorem early_stop_by_adapter_witness:
  "requested (snd (scrape IndeedScraper onePageWorld (devInPune (NNum 10))
      (newScraper (js ''https://in.indeed.com'')))) = [1, 2, 3] \<and>
   requested (snd (scrape NaukriScraper onePageWorld (devInPune (NNum 10))
      (newScraper (js ''https://in.indeed.com'')))) = [1, 2] \<and>
   requested (snd (scrape PlaywrightNaukriScraper onePageWorld (devInPune (NNum 10))
      (newScraper (js ''https://in.indeed.com'')))) = [1, 2] \<and>
   requested (snd (scrape PlaywrightIndeedScraper onePageWorld (devInPune (NNum 10))
      (newScraper (js ''https://in.indeed.com'')))) = [1, 2, 3, 4, 5, 6, 7, 8, 9, 10] \<and>
   requested (snd (scrape IndeedScraper blankPagesWorld (devInPune (NNum 10))
      (newScraper (js ''https://in.indeed.com'')))) = [1, 2, 3, 4] \<and>
   requested (snd (scrape NaukriScraper blankPagesWorld (devInPune (NNum 10))
      (newScraper (js ''https://in.indeed.com'')))) = [1, 2, 3, 4, 5, 6, 7, 8, 9, 10]"
proof -
  have p: "p_keyword (devInPune (NNum 10)) = JStr (js ''dev'')" "js ''dev'' \<noteq> []"
    "p_location (devInPune (NNum 10)) = JStr (js ''Pune'')" "js ''Pune'' \<noteq> []"
    "p_maxPages (devInPune (NNum 10)) = NNum 10"
    by (simp_all add: devInPune_def js_def)
  show ?thesis
    using early_stop_by_adapter[OF p, of "newScraper (js ''https://in.indeed.com'')" onePageWorld
            "[devCard]"]
          early_stop_by_adapter[OF p, of "newScraper (js ''https://in.indeed.com'')" blankPagesWorld
            "[devCard]"]
          onePageWorld_http[of "siteUrl (newScraper (js ''https://in.indeed.com''))"]
          blankPagesWorld_http[of "siteUrl (newScraper (js ''https://in.indeed.com''))"]
          onePageWorld_browser
    by (simp only: requested_newScraper append_Nil simp_thms)
qed

text \<open>
  C2 as stated fails for browser mode: on that site \<open>PlaywrightIndeedScraper\<close> goes on
  after the empty page 2 and requests all 10 pages.
\<close>

theorem playwrightIndeed_visits_all_pages:
  "requested (snd (scrape PlaywrightIndeedScraper onePageWorld (devInPune (NNum 10))
      (newScraper (js ''https://in.indeed.com'')))) = [1, 2, 3, 4, 5, 6, 7, 8, 9, 10]"
proof -
  have "indeedUrlError (devInPune (NNum 10)) = None"
    by (simp add: indeedUrlError_def missingString_def devInPune_def js_def)
  moreover have "p_maxPages (devInPune (NNum 10)) = NNum 10"
    by (simp add: devInPune_def)
  ultimately show ?thesis
    using playwrightIndeed_no_early_stop[OF onePageWorld_browser(4) onePageWorld_browser(1)
            onePageWorld_browser(2), of "devInPune (NNum 10)"
            "newScraper (js ''https://in.indeed.com'')"]
    by (simp add: requested_newScraper)
qed

section \<open>Errors of the first fetch\<close>















section \<open>Release of the browser\<close>

lemma navigate_handles: "handles (snd (navigate w n s)) = handles s"
  by (simp add: navigate_def handles_def Let_def split: option.splits)

lemma playwrightIndeedPages_handles_None:
  "handles (snd (playwrightIndeedPages w None maxPages pg allJobs s)) = handles s"
proof (induction "nat (\<lceil>maxPages\<rceil> - pg)" arbitrary: pg allJobs s)
  case 0
  then have "\<not> pg < \<lceil>maxPages\<rceil>" by simp
  then have "\<not> of_int pg < maxPages" by (simp add: less_ceiling_iff)
  then show ?case by (subst playwrightIndeedPages.simps) simp
next
  case (Suc k)
  then have k: "k = nat (\<lceil>maxPages\<rceil> - (pg + 1))" by linarith
  note IH = Suc.hyps(1)[OF k]
  obtain e s1 where n: "navigate w (pg + 1) s = (e, s1)" by (cases "navigate w (pg + 1) s")
  then have h1: "handles s1 = handles s" using navigate_handles[of w "pg + 1" s] by simp
  have r: "handles (report a b c (s1\<lparr> leadsExtracted := x \<rparr>)) = handles s" for a b c x
    using h1 by (simp add: handles_def report_def)
  have r0: "handles (report a b c s1) = handles s" for a b c
    using h1 by (simp add: handles_def report_def)
  show ?case
    apply (subst playwrightIndeedPages.simps)
    apply (simp add: n h1 IH r r0 Let_def split: option.splits sum.splits)
    done
qed

lemma playwrightIndeedPages_handles:
  "handles (snd (playwrightIndeedPages w u maxPages pg allJobs s)) = handles s"
proof (cases u)
  case None
  then show ?thesis by (simp add: playwrightIndeedPages_handles_None)
next
  case (Some m)
  then show ?thesis by (subst playwrightIndeedPages.simps) simp
qed

lemma playwrightNaukriPages_handles_None:
  "handles (snd (playwrightNaukriPages w None maxPages cur allJobs s)) = handles s"
proof (induction "nat (\<lfloor>maxPages\<rfloor> + 1 - cur)" arbitrary: cur allJobs s)
  case 0
  then have "\<not> cur \<le> \<lfloor>maxPages\<rfloor>" by simp
  then have "\<not> of_int cur \<le> maxPages" by (simp add: le_floor_iff)
  then show ?case by (subst playwrightNaukriPages.simps) simp
next
  case (Suc k)
  then have k: "k = nat (\<lfloor>maxPages\<rfloor> + 1 - (cur + 1))" by linarith
  note IH = Suc.hyps(1)[OF k]
  obtain e s1 where n: "navigate w cur s = (e, s1)" by (cases "navigate w cur s")
  then have h1: "handles s1 = handles s" using navigate_handles[of w cur s] by simp
  have r: "handles (report a b c (s1\<lparr> leadsExtracted := x \<rparr>)) = handles s" for a b c x
    using h1 by (simp add: handles_def report_def)
  have r0: "handles (report a b c s1) = handles s" for a b c
    using h1 by (simp add: handles_def report_def)
  show ?case
    apply (subst playwrightNaukriPages.simps)
    apply (simp add: n h1 IH r r0 Let_def split: option.splits)
    done
qed

lemma playwrightNaukriPages_handles:
  "handles (snd (playwrightNaukriPages w u maxPages cur allJobs s)) = handles s"
proof (cases u)
  case None
  then show ?thesis by (simp add: playwrightNaukriPages_handles_None)
next
  case (Some m)
  then show ?thesis by (subst playwrightNaukriPages.simps) simp
qed

lemma initialize_handles:
  "\<not> browser s \<Longrightarrow> launches s = closes s \<Longrightarrow>
   launches (snd (initialize w s)) = closes (snd (initialize w s)) + (if browser (snd (initialize w s)) then 1 else 0)"
  by (simp add: initialize_def Let_def split: option.splits)

lemma closeHandles_releases:
  "pageClose w = None \<Longrightarrow> launches s = closes s + (if browser s then 1 else 0) \<Longrightarrow>
   launches (snd (closeHandles w s)) = closes (snd (closeHandles w s))"
  by (simp add: closeHandles_def split: option.splits)

lemma handles_eq:
  "handles a = handles b \<Longrightarrow>
   launches a = closes a + (if browser a then 1 else 0) \<longleftrightarrow>
   launches b = closes b + (if browser b then 1 else 0)"
  by (simp add: handles_def)

text \<open>
  As long as \<open>page.close()\<close> does not reject, every browser an adapter starts is closed
  by the time \<open>scrape\<close> returns or throws, whatever else fails.
\<close>

lemma browser_released_when_page_closes:
  assumes "pageClose w = None" "\<not> browser s" "launches s = closes s"
  shows "launches (snd (scrape PlaywrightIndeedScraper w p s)) =
           closes (snd (scrape PlaywrightIndeedScraper w p s))"
    and "launches (snd (scrape PlaywrightNaukriScraper w p s)) =
           closes (snd (scrape PlaywrightNaukriScraper w p s))"
proof -
  obtain e s1 where i: "initialize w s = (e, s1)" by (cases "initialize w s")
  have b1: "launches s1 = closes s1 + (if browser s1 then 1 else 0)"
    using initialize_handles[OF assms(2,3), of w] i by simp
  have a: "launches s2 = closes s2 + (if browser s2 then 1 else 0)"
    if "handles s2 = handles s1" for s2
    using handles_eq[OF that] b1 by simp
  show "launches (snd (scrape PlaywrightIndeedScraper w p s)) =
           closes (snd (scrape PlaywrightIndeedScraper w p s))"
  proof (cases e)
    case (Some m)
    then show ?thesis using i b1 closeHandles_releases[OF assms(1), of s1]
      by (simp add: scrape_playwrightIndeed_def cleanup_playwrightIndeed_def Let_def)
  next
    case None
    obtain r s2 where l: "playwrightIndeedPages w (indeedUrlError p) (pageLimit 1 (p_maxPages p)) 0 [] s1 = (r, s2)"
      by (cases "playwrightIndeedPages w (indeedUrlError p) (pageLimit 1 (p_maxPages p)) 0 [] s1")
    then have "handles s2 = handles s1"
      using playwrightIndeedPages_handles[of w "indeedUrlError p" "pageLimit 1 (p_maxPages p)" 0 "[]" s1]
      by simp
    then have "launches (snd (closeHandles w s2)) = closes (snd (closeHandles w s2))"
      using closeHandles_releases[OF assms(1), of s2] a by simp
    then show ?thesis using i None l
      by (cases r) (simp_all add: scrape_playwrightIndeed_def cleanup_playwrightIndeed_def Let_def)
  qed
  show "launches (snd (scrape PlaywrightNaukriScraper w p s)) =
           closes (snd (scrape PlaywrightNaukriScraper w p s))"
  proof (cases e)
    case (Some m)
    then show ?thesis using i b1 closeHandles_releases[OF assms(1), of s1]
      by (cases "closeHandles w s1")
         (auto simp: scrape_playwrightNaukri_def cleanup_playwrightNaukri_def Let_def
           split: option.splits)
  next
    case None
    obtain r s2 where l: "playwrightNaukriPages w (naukriUrlError p) (pageLimit 5 (p_maxPages p)) 1 [] s1 = (r, s2)"
      by (cases "playwrightNaukriPages w (naukriUrlError p) (pageLimit 5 (p_maxPages p)) 1 [] s1")
    then have "handles s2 = handles s1"
      using playwrightNaukriPages_handles[of w "naukriUrlError p" "pageLimit 5 (p_maxPages p)" 1 "[]" s1]
      by simp
    then have "launches (snd (closeHandles w s2)) = closes (snd (closeHandles w s2))"
      using closeHandles_releases[OF assms(1), of s2] a by simp
    then show ?thesis using i None l
      by (cases r; cases "closeHandles w s2")
         (auto simp: scrape_playwrightNaukri_def cleanup_playwrightNaukri_def Let_def
           split: option.splits)
  qed
qed

text \<open>
  C9. When \<open>page.close()\<close> rejects, \<open>cleanup\<close> never reaches \<open>browser.close()\<close>: both
  browser adapters return from \<open>scrape\<close> with one browser started, none closed, and the
  handle still held.
\<close>

theorem browser_left_open_when_page_close_rejects:
  "launches (snd (scrape PlaywrightIndeedScraper stuckPageWorld (devInPune (NNum 1))
              (newScraper (js ''https://in.indeed.com'')))) = 1 \<and>
   closes (snd (scrape PlaywrightIndeedScraper stuckPageWorld (devInPune (NNum 1))
              (newScraper (js ''https://in.indeed.com'')))) = 0 \<and>
   browser (snd (scrape PlaywrightIndeedScraper stuckPageWorld (devInPune (NNum 1))
              (newScraper (js ''https://in.indeed.com'')))) \<and>
   launches (snd (scrape PlaywrightNaukriScraper stuckPageWorld (devInPune (NNum 1))
              (newScraper (js ''https://www.naukri.com'')))) = 1 \<and>
   closes (snd (scrape PlaywrightNaukriScraper stuckPageWorld (devInPune (NNum 1))
              (newScraper (js ''https://www.naukri.com'')))) = 0 \<and>
   browser (snd (scrape PlaywrightNaukriScraper stuckPageWorld (devInPune (NNum 1))
              (newScraper (js ''https://www.naukri.com''))))"
  by code_simp

end
